theory Spec2Isabelle
  imports Main
begin

section \<open>Errors and primitive values\<close>

text \<open>
  The exceptions the model layer can raise: \<open>ValidationError\<close> comes from the
  \<open>clean\<close> methods of models.py, \<open>DoesNotExist\<close> from reading a related object
  (\<open>self.artist\<close>, \<open>self.agrupacion\<close>) whose row is not stored, \<open>IntegrityError\<close> from
  a violated \<open>unique\<close>, \<open>NOT NULL\<close> or foreign-key constraint when a row is written,
  \<open>ProtectedError\<close> from deleting a row that an \<open>on_delete=PROTECT\<close> foreign key
  references.
\<close>

datatype error = ValidationError | DoesNotExist | IntegrityError | ProtectedError

type_synonym key = int
type_synonym timestamp = int

text \<open>
  Python's truth value of \<open>self.pk\<close>: \<open>None\<close> and \<open>0\<close> are false, every other
  key is true.
\<close>

definition truthy :: "key option \<Rightarrow> bool" where
  "truthy k = (case k of None \<Rightarrow> False | Some i \<Rightarrow> i \<noteq> 0)"

section \<open>Text: slugify and the decimal rendering of the counter\<close>

text \<open>
  \<open>django.utils.text.slugify(value)\<close> with \<open>allow_unicode=False\<close>, as the framework
  defines it from version 3.2 on:
  \<^verbatim>\<open>
  value = unicodedata.normalize("NFKD", value).encode("ascii", "ignore").decode("ascii")
  value = re.sub(r"[^\w\s-]", "", value.lower())
  return re.sub(r"[-\s]+", "-", value).strip("-_")
  \<close>
  A \<open>string\<close> is a list of bytes. On ASCII text the normalisation is the identity;
  a byte outside ASCII is dropped here, so the model is exact on ASCII names (the
  compatibility decomposition of accented letters is not part of it).
\<close>

definition is_ascii :: "char \<Rightarrow> bool" where
  "is_ascii c = ((of_char c :: nat) < 128)"

definition lower_char :: "char \<Rightarrow> char" where
  "lower_char c =
     (if (65::nat) \<le> of_char c \<and> (of_char c :: nat) \<le> 90
      then char_of ((of_char c :: nat) + 32) else c)"

definition is_word :: "char \<Rightarrow> bool" where
  "is_word c =
     (let n = (of_char c :: nat)
      in (97 \<le> n \<and> n \<le> 122) \<or> (65 \<le> n \<and> n \<le> 90) \<or> (48 \<le> n \<and> n \<le> 57) \<or> n = 95)"

definition is_space :: "char \<Rightarrow> bool" where
  "is_space c =
     (let n = (of_char c :: nat)
      in (9 \<le> n \<and> n \<le> 13) \<or> (28 \<le> n \<and> n \<le> 32))"

definition is_dash :: "char \<Rightarrow> bool" where
  "is_dash c = (c = CHR ''-'')"

definition is_sep :: "char \<Rightarrow> bool" where
  "is_sep c = (is_dash c \<or> is_space c)"

text \<open>\<open>re.sub(r"[-\s]+", "-", value)\<close>: every maximal run of separators becomes one dash.\<close>

fun collapse :: "bool \<Rightarrow> string \<Rightarrow> string" where
  "collapse in_run [] = []"
| "collapse in_run (c # cs) =
     (if is_sep c then (if in_run then collapse True cs else CHR ''-'' # collapse True cs)
      else c # collapse False cs)"

definition strip :: "(char \<Rightarrow> bool) \<Rightarrow> string \<Rightarrow> string" where
  "strip p s = rev (dropWhile p (rev (dropWhile p s)))"

definition slugify :: "string \<Rightarrow> string" where
  "slugify v =
     (let v1 = filter is_ascii v;
          v2 = filter (\<lambda>c. is_word c \<or> is_space c \<or> is_dash c) (map lower_char v1)
      in strip (\<lambda>c. c = CHR ''-'' \<or> c = CHR ''_'') (collapse False v2))"

text \<open>
  Python's \<open>str\<close> of a non-negative integer, as the f-string \<open>f"{base}-{counter}"\<close>
  renders the counter: its decimal digits, most significant first.
\<close>

definition digit_char :: "nat \<Rightarrow> char" where
  "digit_char n = char_of (48 + n)"

fun str :: "nat \<Rightarrow> string" where
  "str n = (if n < 10 then [digit_char n] else str (n div 10) @ [digit_char (n mod 10)])"

declare str.simps [simp del]

lemma digit_char_inj: "n < 10 \<Longrightarrow> m < 10 \<Longrightarrow> digit_char n = digit_char m \<Longrightarrow> n = m"
  by (simp add: digit_char_def char_of_eq_iff take_bit_eq_mod)

lemma str_nonempty: "str n \<noteq> []"
  by (subst str.simps) simp

lemma str_inj: "str n = str m \<Longrightarrow> n = m"
proof (induction n arbitrary: m rule: str.induct)
  case (1 n)
  show ?case
  proof (cases "n < 10")
    case True
    show ?thesis
    proof (cases "m < 10")
      case m: True
      from "1.prems" True m have "digit_char n = digit_char m"
        by (simp add: str.simps)
      with True m show ?thesis by (rule digit_char_inj)
    next
      case m: False
      from "1.prems" True m have "[digit_char n] = str (m div 10) @ [digit_char (m mod 10)]"
        by (simp add: str.simps)
      then have "str (m div 10) = []" by simp
      with str_nonempty show ?thesis by blast
    qed
  next
    case False
    show ?thesis
    proof (cases "m < 10")
      case m: True
      from "1.prems" False m have "str (n div 10) @ [digit_char (n mod 10)] = [digit_char m]"
        by (simp add: str.simps)
      then have "str (n div 10) = []" by simp
      with str_nonempty show ?thesis by blast
    next
      case m: False
      from "1.prems" False m
      have "str (n div 10) @ [digit_char (n mod 10)] = str (m div 10) @ [digit_char (m mod 10)]"
        by (simp add: str.simps)
      then have "str (n div 10) = str (m div 10)"
        and d: "digit_char (n mod 10) = digit_char (m mod 10)"
        by simp_all
      with "1.IH" False have q: "n div 10 = m div 10" by blast
      have "n mod 10 = m mod 10"
        by (rule digit_char_inj [OF _ _ d]) simp_all
      with q show ?thesis by (metis div_mult_mod_eq)
    qed
  qed
qed

section \<open>The data model of models.py\<close>

text \<open>
  One record per model class, one field per column. A foreign key holds the key of the
  row it points to; \<open>pk\<close> is \<open>None\<close> until the instance has been written. Fields of
  different classes that share a name in the source carry the class as a prefix here.
  Of the attributes \<open>CustomUser\<close> inherits from the framework's \<open>AbstractUser\<close>
  only \<open>username\<close> (declared unique there) is kept. A column declared without
  \<open>null=True\<close> has a type without \<open>None\<close>, except the automatic timestamps, which are
  \<open>None\<close> on an instance until a save fills them. The length limits of the text columns
  and the upper range of \<open>orden\<close> are left to the database and are not part of the model.
\<close>

record CustomUser =
  user_pk :: "key option"
  user_username :: string
  user_email :: string

record LineaArtistica =
  linea_pk :: "key option"
  linea_nombre :: string
  linea_descripcion :: "string option"

record Genero =
  genero_pk :: "key option"
  genero_nombre :: string
  genero_linea :: key

record ArtistProfile =
  ap_pk :: "key option"
  ap_user :: key
  ap_nombre_artistico :: "string option"
  ap_descripcion :: "string option"
  ap_perfil_imagen :: "string option"
  ap_creado_en :: "timestamp option"
  ap_actualizado_en :: "timestamp option"

record Agrupacion =
  ag_pk :: "key option"
  ag_nombre :: string
  ag_slug :: string
  ag_administrador :: key
  ag_descripcion :: "string option"
  ag_perfil_imagen :: "string option"
  ag_creado_en :: "timestamp option"
  ag_actualizado_en :: "timestamp option"

record ArtistImage =
  ai_pk :: "key option"
  ai_artist :: key
  ai_imagen :: string
  ai_titulo :: "string option"
  ai_orden :: nat
  ai_creado_en :: "timestamp option"

record GroupImage =
  gi_pk :: "key option"
  gi_agrupacion :: key
  gi_imagen :: string
  gi_titulo :: "string option"
  gi_orden :: nat
  gi_creado_en :: "timestamp option"

datatype SocialPlatformChoices =
  FACEBOOK | INSTAGRAM | TWITTER | YOUTUBE | TIKTOK | SPOTIFY | OTHER

record ArtistSocial =
  as_pk :: "key option"
  as_artist :: key
  as_plataforma :: SocialPlatformChoices
  as_url :: string
  as_creado_en :: "timestamp option"

record GroupSocial =
  gs_pk :: "key option"
  gs_agrupacion :: key
  gs_plataforma :: SocialPlatformChoices
  gs_url :: string
  gs_creado_en :: "timestamp option"

text \<open>
  The stored state: one table per model, and one table of pairs per many-to-many field
  (\<open>ArtistProfile.generos\<close>, \<open>Agrupacion.miembros\<close>, \<open>Agrupacion.generos\<close>), each pair
  holding the key of the owning row first.
\<close>

record db =
  users :: "CustomUser list"
  lineas :: "LineaArtistica list"
  generos :: "Genero list"
  artist_profiles :: "ArtistProfile list"
  artistprofile_generos :: "(key \<times> key) list"
  agrupaciones :: "Agrupacion list"
  agrupacion_miembros :: "(key \<times> key) list"
  agrupacion_generos :: "(key \<times> key) list"
  artist_images :: "ArtistImage list"
  group_images :: "GroupImage list"
  artist_socials :: "ArtistSocial list"
  group_socials :: "GroupSocial list"

text \<open>
  A method of a model instance may change the instance and the stored state, and returns
  \<open>None\<close> or raises: its result is the outcome, the instance and the state afterwards.
\<close>

type_synonym 'r outcome = "(error + unit) \<times> 'r \<times> db"

section \<open>Writing a row: \<open>Model.save\<close>\<close>

text \<open>
  The key an insert gives to an instance that has none: one more than the largest
  key of the table (and at least 1), so a key no stored row has. A database sequence
  also never hands out the key of a deleted row again; the stored state keeps no
  record of deleted rows, and nothing proved below depends on which new key is chosen.
\<close>

definition fresh_pk :: "key option list \<Rightarrow> key" where
  "fresh_pk ks = 1 + fold (\<lambda>k m. case k of None \<Rightarrow> m | Some i \<Rightarrow> max i m) ks 0"

text \<open>
  The framework's \<open>Model.save\<close> on one table. The row is inserted when the instance has
  no key or no row has its key, and updated in place otherwise. \<open>pre_save\<close> fills the
  automatic fields (\<open>auto_now\<close>, \<open>auto_now_add\<close>); \<open>ok\<close> holds the table's unique,
  \<open>NOT NULL\<close> and foreign-key constraints, checked against the other rows before
  anything is written.
\<close>

definition Model_save ::
  "('r \<Rightarrow> key option) \<Rightarrow> (key \<Rightarrow> 'r \<Rightarrow> 'r) \<Rightarrow> (bool \<Rightarrow> 'r \<Rightarrow> 'r) \<Rightarrow> ('r \<Rightarrow> 'r list \<Rightarrow> bool) \<Rightarrow>
   'r \<Rightarrow> 'r list \<Rightarrow> (error + unit) \<times> 'r \<times> 'r list" where
  "Model_save get_pk set_pk pre_save ok self rows =
     (let add = (get_pk self = None \<or> get_pk self \<notin> set (map get_pk rows));
          self1 = pre_save add self;
          others = (if add then rows else filter (\<lambda>r. get_pk r \<noteq> get_pk self1) rows)
      in if \<not> ok self1 others then (Inl IntegrityError, self1, rows)
         else if add then
           (let self2 = (case get_pk self1 of
                           None \<Rightarrow> set_pk (fresh_pk (map get_pk rows)) self1
                         | Some _ \<Rightarrow> self1)
            in (Inr (), self2, rows @ [self2]))
         else (Inr (), self1, map (\<lambda>r. if get_pk r = get_pk self1 then self1 else r) rows))"

text \<open>\<open>CustomUser\<close>: \<open>username\<close> and \<open>email = models.EmailField(unique=True)\<close> are unique.\<close>

definition CustomUser_save :: "CustomUser \<Rightarrow> db \<Rightarrow> CustomUser outcome" where
  "CustomUser_save self d =
     (case Model_save user_pk (\<lambda>k r. r\<lparr>user_pk := Some k\<rparr>) (\<lambda>add r. r)
             (\<lambda>r others. user_username r \<notin> set (map user_username others) \<and>
                          user_email r \<notin> set (map user_email others))
             self (users d)
      of (res, self', rows') \<Rightarrow> (res, self', d\<lparr>users := rows'\<rparr>))"

text \<open>
  \<open>ArtistProfile\<close> does not override \<open>save\<close>. \<open>user\<close> is a one-to-one field (unique, and
  the user must exist); \<open>creado_en\<close> is \<open>auto_now_add\<close>, \<open>actualizado_en\<close> is \<open>auto_now\<close>.
  Neither timestamp column accepts \<open>NULL\<close>: an update by an instance whose \<open>creado_en\<close>
  is \<open>None\<close> is refused.
\<close>

definition ArtistProfile_save :: "timestamp \<Rightarrow> ArtistProfile \<Rightarrow> db \<Rightarrow> ArtistProfile outcome" where
  "ArtistProfile_save now self d =
     (case Model_save ap_pk (\<lambda>k r. r\<lparr>ap_pk := Some k\<rparr>)
             (\<lambda>add r. (if add then r\<lparr>ap_creado_en := Some now\<rparr> else r)\<lparr>ap_actualizado_en := Some now\<rparr>)
             (\<lambda>r others. ap_user r \<notin> set (map ap_user others) \<and>
                          ap_creado_en r \<noteq> None \<and> ap_actualizado_en r \<noteq> None \<and>
                          Some (ap_user r) \<in> set (map user_pk (users d)))
             self (artist_profiles d)
      of (res, self', rows') \<Rightarrow> (res, self', d\<lparr>artist_profiles := rows'\<rparr>))"

text \<open>
  \<open>super().save()\<close> of \<open>Agrupacion\<close>: \<open>slug\<close> is unique, the timestamps are not
  \<open>NULL\<close>, the administrator must exist.
\<close>

definition Agrupacion_super_save :: "timestamp \<Rightarrow> Agrupacion \<Rightarrow> db \<Rightarrow> Agrupacion outcome" where
  "Agrupacion_super_save now self d =
     (case Model_save ag_pk (\<lambda>k r. r\<lparr>ag_pk := Some k\<rparr>)
             (\<lambda>add r. (if add then r\<lparr>ag_creado_en := Some now\<rparr> else r)\<lparr>ag_actualizado_en := Some now\<rparr>)
             (\<lambda>r others. ag_slug r \<notin> set (map ag_slug others) \<and>
                          ag_creado_en r \<noteq> None \<and> ag_actualizado_en r \<noteq> None \<and>
                          Some (ag_administrador r) \<in> set (map user_pk (users d)))
             self (agrupaciones d)
      of (res, self', rows') \<Rightarrow> (res, self', d\<lparr>agrupaciones := rows'\<rparr>))"

definition ArtistImage_super_save :: "timestamp \<Rightarrow> ArtistImage \<Rightarrow> db \<Rightarrow> ArtistImage outcome" where
  "ArtistImage_super_save now self d =
     (case Model_save ai_pk (\<lambda>k r. r\<lparr>ai_pk := Some k\<rparr>)
             (\<lambda>add r. if add then r\<lparr>ai_creado_en := Some now\<rparr> else r)
             (\<lambda>r others. ai_creado_en r \<noteq> None \<and>
                          Some (ai_artist r) \<in> set (map ap_pk (artist_profiles d)))
             self (artist_images d)
      of (res, self', rows') \<Rightarrow> (res, self', d\<lparr>artist_images := rows'\<rparr>))"

definition GroupImage_super_save :: "timestamp \<Rightarrow> GroupImage \<Rightarrow> db \<Rightarrow> GroupImage outcome" where
  "GroupImage_super_save now self d =
     (case Model_save gi_pk (\<lambda>k r. r\<lparr>gi_pk := Some k\<rparr>)
             (\<lambda>add r. if add then r\<lparr>gi_creado_en := Some now\<rparr> else r)
             (\<lambda>r others. gi_creado_en r \<noteq> None \<and>
                          Some (gi_agrupacion r) \<in> set (map ag_pk (agrupaciones d)))
             self (group_images d)
      of (res, self', rows') \<Rightarrow> (res, self', d\<lparr>group_images := rows'\<rparr>))"

section \<open>Validation: the \<open>clean\<close> methods\<close>

text \<open>
  \<open>self.generos.count()\<close>: the rows of the many-to-many table owned by the instance.
\<close>

definition related_count :: "(key \<times> key) list \<Rightarrow> key option \<Rightarrow> int" where
  "related_count through pk = int (length (filter (\<lambda>(owner, g). Some owner = pk) through))"

text \<open>
  \<open>ArtistProfile.clean\<close>: the genres are counted only when \<open>self.pk\<close> is true; the count
  is taken as 0 otherwise.
\<close>

definition ArtistProfile_clean :: "ArtistProfile \<Rightarrow> db \<Rightarrow> ArtistProfile outcome" where
  "ArtistProfile_clean self d =
     (let generos_count = (if truthy (ap_pk self)
                           then related_count (artistprofile_generos d) (ap_pk self)
                           else 0)
      in if generos_count > 3 then (Inl ValidationError, self, d) else (Inr (), self, d))"

definition Agrupacion_clean :: "Agrupacion \<Rightarrow> db \<Rightarrow> Agrupacion outcome" where
  "Agrupacion_clean self d =
     (if truthy (ag_pk self)
      then (if related_count (agrupacion_generos d) (ag_pk self) > 3
            then (Inl ValidationError, self, d) else (Inr (), self, d))
      else (Inr (), self, d))"

text \<open>
  Reading the related object of an image, \<open>self.artist\<close> and \<open>self.agrupacion\<close>: the
  owner's row is fetched by its key, and \<open>DoesNotExist\<close> is raised when no such row is
  stored.
\<close>

definition ArtistImage_artist :: "ArtistImage \<Rightarrow> db \<Rightarrow> error + key" where
  "ArtistImage_artist self d =
     (if Some (ai_artist self) \<in> set (map ap_pk (artist_profiles d)) then Inr (ai_artist self)
      else Inl DoesNotExist)"

definition GroupImage_agrupacion :: "GroupImage \<Rightarrow> db \<Rightarrow> error + key" where
  "GroupImage_agrupacion self d =
     (if Some (gi_agrupacion self) \<in> set (map ag_pk (agrupaciones d)) then Inr (gi_agrupacion self)
      else Inl DoesNotExist)"

text \<open>
  \<open>ArtistImage.clean\<close>: the images of the same artist are counted, without the row of
  the instance itself when \<open>self.pk\<close> is true. Both branches read \<open>self.artist\<close> first.
\<close>

definition ArtistImage_clean :: "ArtistImage \<Rightarrow> db \<Rightarrow> ArtistImage outcome" where
  "ArtistImage_clean self d =
     (case (if truthy (ai_pk self)
            then (case ArtistImage_artist self d of
                    Inl e \<Rightarrow> Inl e
                  | Inr artist \<Rightarrow>
                      Inr (length (filter (\<lambda>r. ai_pk r \<noteq> ai_pk self)
                                     (filter (\<lambda>r. ai_artist r = artist) (artist_images d)))))
            else (case ArtistImage_artist self d of
                    Inl e \<Rightarrow> Inl e
                  | Inr artist \<Rightarrow>
                      Inr (length (filter (\<lambda>r. ai_artist r = artist) (artist_images d)))))
      of Inl e \<Rightarrow> (Inl e, self, d)
       | Inr existing \<Rightarrow>
           if existing \<ge> 5 then (Inl ValidationError, self, d) else (Inr (), self, d))"

definition GroupImage_clean :: "GroupImage \<Rightarrow> db \<Rightarrow> GroupImage outcome" where
  "GroupImage_clean self d =
     (case (if truthy (gi_pk self)
            then (case GroupImage_agrupacion self d of
                    Inl e \<Rightarrow> Inl e
                  | Inr agrupacion \<Rightarrow>
                      Inr (length (filter (\<lambda>r. gi_pk r \<noteq> gi_pk self)
                                     (filter (\<lambda>r. gi_agrupacion r = agrupacion) (group_images d)))))
            else (case GroupImage_agrupacion self d of
                    Inl e \<Rightarrow> Inl e
                  | Inr agrupacion \<Rightarrow>
                      Inr (length (filter (\<lambda>r. gi_agrupacion r = agrupacion) (group_images d)))))
      of Inl e \<Rightarrow> (Inl e, self, d)
       | Inr existing \<Rightarrow>
           if existing \<ge> 5 then (Inl ValidationError, self, d) else (Inr (), self, d))"

section \<open>The overridden \<open>save\<close> methods\<close>

text \<open>\<open>ArtistImage.save\<close> and \<open>GroupImage.save\<close>: \<open>self.clean()\<close>, then \<open>super().save()\<close>.\<close>

definition ArtistImage_save :: "timestamp \<Rightarrow> ArtistImage \<Rightarrow> db \<Rightarrow> ArtistImage outcome" where
  "ArtistImage_save now self d =
     (case ArtistImage_clean self d of
        (Inl e, self1, d1) \<Rightarrow> (Inl e, self1, d1)
      | (Inr _, self1, d1) \<Rightarrow> ArtistImage_super_save now self1 d1)"

definition GroupImage_save :: "timestamp \<Rightarrow> GroupImage \<Rightarrow> db \<Rightarrow> GroupImage outcome" where
  "GroupImage_save now self d =
     (case GroupImage_clean self d of
        (Inl e, self1, d1) \<Rightarrow> (Inl e, self1, d1)
      | (Inr _, self1, d1) \<Rightarrow> GroupImage_super_save now self1 d1)"

text \<open>\<open>Agrupacion.objects.filter(slug=slug).exists()\<close>\<close>

definition slug_exists :: "db \<Rightarrow> string \<Rightarrow> bool" where
  "slug_exists d s = (s \<in> set (map ag_slug (agrupaciones d)))"

text \<open>The candidate the loop builds from \<open>counter\<close>: \<open>f"{base}-{counter}"\<close>.\<close>

definition suffixed :: "string \<Rightarrow> nat \<Rightarrow> string" where
  "suffixed base counter = base @ ''-'' @ str counter"

lemma suffixed_inj: "suffixed base n = suffixed base m \<Longrightarrow> n = m"
  by (simp add: suffixed_def str_inj)

lemma finite_suffixed_taken: "finite {c. slug_exists d (suffixed base c)}"
proof -
  have "inj (suffixed base)"
    by (rule injI) (rule suffixed_inj)
  then have "finite (suffixed base -` set (map ag_slug (agrupaciones d)))"
    by (intro finite_vimageI) simp_all
  moreover have "{c. slug_exists d (suffixed base c)} = suffixed base -` set (map ag_slug (agrupaciones d))"
    by (auto simp: slug_exists_def)
  ultimately show ?thesis by simp
qed

text \<open>
  The loop of \<open>Agrupacion.save\<close>, entered with \<open>slug = base\<close> and \<open>counter = 1\<close>; the
  counter only grows from 1, so it is a natural number:
  \<^verbatim>\<open>
  while Agrupacion.objects.filter(slug=slug).exists():
      slug = f"{base}-{counter}"
      counter += 1
  \<close>
\<close>

function probe_slug :: "db \<Rightarrow> string \<Rightarrow> string \<Rightarrow> nat \<Rightarrow> string" where
  "probe_slug d base s counter =
     (if slug_exists d s then probe_slug d base (suffixed base counter) (counter + 1) else s)"
  by pat_completeness auto
termination
proof (relation "measure (\<lambda>(d, base, s, counter).
         (if slug_exists d s then 1 else 0) + card {c. counter \<le> c \<and> slug_exists d (suffixed base c)})")
  show "wf (measure (\<lambda>(d, base, s, counter).
         (if slug_exists d s then 1 else 0) + card {c. counter \<le> c \<and> slug_exists d (suffixed base c)}))"
    by simp
next
  fix d :: db and base s :: string and counter :: nat
  assume taken: "slug_exists d s"
  let ?A = "{c. counter \<le> c \<and> slug_exists d (suffixed base c)}"
  let ?B = "{c. counter + 1 \<le> c \<and> slug_exists d (suffixed base c)}"
  have fin: "finite ?A"
    by (rule finite_subset [OF _ finite_suffixed_taken]) auto
  have sub: "?B \<subseteq> ?A" by auto
  have "(if slug_exists d (suffixed base counter) then 1 else 0) + card ?B \<le> card ?A"
  proof (cases "slug_exists d (suffixed base counter)")
    case True
    then have "counter \<in> ?A" and "counter \<notin> ?B" by auto
    with sub have "?B \<subset> ?A" by blast
    with fin have "card ?B < card ?A" by (rule psubset_card_mono)
    with True show ?thesis by simp
  next
    case False
    with fin sub show ?thesis by (simp add: card_mono)
  qed
  with taken
  show "((d, base, suffixed base counter, counter + 1), (d, base, s, counter))
        \<in> measure (\<lambda>(d, base, s, counter).
            (if slug_exists d s then 1 else 0) + card {c. counter \<le> c \<and> slug_exists d (suffixed base c)})"
    by simp
qed

declare probe_slug.simps [simp del]

text \<open>
  \<open>Agrupacion.save\<close>: when \<open>self.slug\<close> is empty, the slug is derived from the name and
  probed; then \<open>super().save()\<close>.
\<close>

definition Agrupacion_save :: "timestamp \<Rightarrow> Agrupacion \<Rightarrow> db \<Rightarrow> Agrupacion outcome" where
  "Agrupacion_save now self d =
     (let self1 = (if ag_slug self = []
                   then (let base = take 180 (slugify (ag_nombre self))
                         in self\<lparr>ag_slug := probe_slug d base base 1\<rparr>)
                   else self)
      in Agrupacion_super_save now self1 d)"

section \<open>Deleting rows: \<open>on_delete\<close>\<close>

text \<open>
  Deleting the rows of \<open>ArtistProfile\<close> with the keys \<open>ks\<close>: \<open>ArtistImage.artist\<close> and
  \<open>ArtistSocial.artist\<close> are \<open>on_delete=CASCADE\<close>, and the rows of the many-to-many tables
  that name a deleted profile go with it.
\<close>

definition keys_of :: "('r \<Rightarrow> key option) \<Rightarrow> 'r list \<Rightarrow> key list" where
  "keys_of get_pk rows = concat (map (\<lambda>r. case get_pk r of None \<Rightarrow> [] | Some k \<Rightarrow> [k]) rows)"

definition ArtistProfile_cascade :: "key list \<Rightarrow> db \<Rightarrow> db" where
  "ArtistProfile_cascade ks d =
     d\<lparr>artist_images := filter (\<lambda>r. ai_artist r \<notin> set ks) (artist_images d),
       artist_socials := filter (\<lambda>r. as_artist r \<notin> set ks) (artist_socials d),
       artistprofile_generos := filter (\<lambda>(p, g). p \<notin> set ks) (artistprofile_generos d),
       agrupacion_miembros := filter (\<lambda>(a, p). p \<notin> set ks) (agrupacion_miembros d),
       artist_profiles := filter (\<lambda>r. ap_pk r \<notin> set (map Some ks)) (artist_profiles d)\<rparr>"

text \<open>
  Deleting the rows of \<open>Agrupacion\<close> with the keys \<open>ks\<close>: \<open>GroupImage.agrupacion\<close> and
  \<open>GroupSocial.agrupacion\<close> are \<open>on_delete=CASCADE\<close>.
\<close>

definition Agrupacion_cascade :: "key list \<Rightarrow> db \<Rightarrow> db" where
  "Agrupacion_cascade ks d =
     d\<lparr>group_images := filter (\<lambda>r. gi_agrupacion r \<notin> set ks) (group_images d),
       group_socials := filter (\<lambda>r. gs_agrupacion r \<notin> set ks) (group_socials d),
       agrupacion_miembros := filter (\<lambda>(a, p). a \<notin> set ks) (agrupacion_miembros d),
       agrupacion_generos := filter (\<lambda>(a, g). a \<notin> set ks) (agrupacion_generos d),
       agrupaciones := filter (\<lambda>r. ag_pk r \<notin> set (map Some ks)) (agrupaciones d)\<rparr>"

text \<open>
  Deleting the user with key \<open>k\<close>: \<open>ArtistProfile.user\<close> and \<open>Agrupacion.administrador\<close>
  are \<open>on_delete=CASCADE\<close>, so the user's profile and the groups it administers are
  collected and deleted with everything that cascades from them.
\<close>

definition CustomUser_delete :: "key \<Rightarrow> db \<Rightarrow> (error + unit) \<times> db" where
  "CustomUser_delete k d =
     (let profiles = keys_of ap_pk (filter (\<lambda>r. ap_user r = k) (artist_profiles d));
          groups = keys_of ag_pk (filter (\<lambda>r. ag_administrador r = k) (agrupaciones d));
          d1 = Agrupacion_cascade groups (ArtistProfile_cascade profiles d)
      in (Inr (), d1\<lparr>users := filter (\<lambda>r. user_pk r \<noteq> Some k) (users d1)\<rparr>))"

text \<open>
  Deleting the artistic line with key \<open>k\<close>: \<open>Genero.linea\<close> is \<open>on_delete=PROTECT\<close>, so a
  genre that references the line makes the delete raise before anything is removed.
\<close>

definition LineaArtistica_delete :: "key \<Rightarrow> db \<Rightarrow> (error + unit) \<times> db" where
  "LineaArtistica_delete k d =
     (if filter (\<lambda>g. genero_linea g = k) (generos d) \<noteq> [] then (Inl ProtectedError, d)
      else (Inr (), d\<lparr>lineas := filter (\<lambda>r. linea_pk r \<noteq> Some k) (lineas d)\<rparr>))"

section \<open>Specification-side notions and sample states\<close>

text \<open>
  The sequence of candidates the slug probe walks through, as the specification words
  it: \<open>base\<close>, \<open>base-1\<close>, \<open>base-2\<close>, ...
\<close>

definition candidate :: "string \<Rightarrow> nat \<Rightarrow> string" where
  "candidate base n = (if n = 0 then base else suffixed base n)"

text \<open>Stored rows carry a key.\<close>

definition has_keys :: "('r \<Rightarrow> key option) \<Rightarrow> 'r list \<Rightarrow> bool" where
  "has_keys get_pk rows = (None \<notin> set (map get_pk rows))"

text \<open>
  Referential integrity of the image tables, as the foreign keys \<open>ArtistImage.artist\<close>
  and \<open>GroupImage.agrupacion\<close> keep it: the owner of every stored image is stored.
\<close>

definition images_have_owners :: "db \<Rightarrow> bool" where
  "images_have_owners d =
     (set (map (\<lambda>r. Some (ai_artist r)) (artist_images d)) \<subseteq> set (map ap_pk (artist_profiles d)) \<and>
      set (map (\<lambda>r. Some (gi_agrupacion r)) (group_images d)) \<subseteq> set (map ag_pk (agrupaciones d)))"

text \<open>Sample rows and states, used to run the operations on concrete inputs.\<close>

definition empty_db :: db where
  "empty_db = \<lparr>users = [], lineas = [], generos = [], artist_profiles = [],
     artistprofile_generos = [], agrupaciones = [], agrupacion_miembros = [],
     agrupacion_generos = [], artist_images = [], group_images = [], artist_socials = [],
     group_socials = []\<rparr>"

definition ana :: CustomUser where
  "ana = \<lparr>user_pk = Some 1, user_username = ''ana'', user_email = ''ana@example.org''\<rparr>"

definition trovadores :: Agrupacion where
  "trovadores = \<lparr>ag_pk = None, ag_nombre = ''Los Trovadores'', ag_slug = [],
     ag_administrador = 1, ag_descripcion = None, ag_perfil_imagen = None,
     ag_creado_en = None, ag_actualizado_en = None\<rparr>"

definition db_ana :: db where
  "db_ana = empty_db\<lparr>users := [ana]\<rparr>"

definition musica :: LineaArtistica where
  "musica = \<lparr>linea_pk = Some 1, linea_nombre = ''Musica'', linea_descripcion = None\<rparr>"

definition danza :: LineaArtistica where
  "danza = \<lparr>linea_pk = Some 2, linea_nombre = ''Danza'', linea_descripcion = None\<rparr>"

definition genero :: "key \<Rightarrow> Genero" where
  "genero k = \<lparr>genero_pk = Some k, genero_nombre = str (nat k), genero_linea = 1\<rparr>"

definition artista :: ArtistProfile where
  "artista = \<lparr>ap_pk = Some 1, ap_user = 1, ap_nombre_artistico = Some ''Ana'',
     ap_descripcion = None, ap_perfil_imagen = None, ap_creado_en = Some 0,
     ap_actualizado_en = Some 0\<rparr>"

definition grupo :: Agrupacion where
  "grupo = trovadores\<lparr>ag_pk := Some 1, ag_slug := ''los-trovadores'', ag_creado_en := Some 0,
     ag_actualizado_en := Some 0\<rparr>"

definition foto :: "key option \<Rightarrow> ArtistImage" where
  "foto k = \<lparr>ai_pk = k, ai_artist = 1, ai_imagen = ''artists/images/foto.png'',
     ai_titulo = None, ai_orden = 0, ai_creado_en = Some 0\<rparr>"

definition cartel :: "key option \<Rightarrow> GroupImage" where
  "cartel k = \<lparr>gi_pk = k, gi_agrupacion = 1, gi_imagen = ''groups/images/cartel.png'',
     gi_titulo = None, gi_orden = 0, gi_creado_en = Some 0\<rparr>"

definition red_artista :: ArtistSocial where
  "red_artista = \<lparr>as_pk = Some 1, as_artist = 1, as_plataforma = INSTAGRAM,
     as_url = ''https://example.org/ana'', as_creado_en = Some 0\<rparr>"

definition red_grupo :: GroupSocial where
  "red_grupo = \<lparr>gs_pk = Some 1, gs_agrupacion = 1, gs_plataforma = OTHER,
     gs_url = ''https://example.org/trovadores'', gs_creado_en = Some 0\<rparr>"

definition db_completo :: db where
  "db_completo = \<lparr>users = [ana], lineas = [musica, danza],
     generos = [genero 1, genero 2, genero 3, genero 4], artist_profiles = [artista],
     artistprofile_generos = [(1, 1), (1, 2), (1, 3), (1, 4)], agrupaciones = [grupo],
     agrupacion_miembros = [(1, 1)], agrupacion_generos = [(1, 1), (1, 2), (1, 3), (1, 4)],
     artist_images = [foto (Some 1), foto (Some 2), foto (Some 3), foto (Some 4), foto (Some 5)],
     group_images = [cartel (Some 1), cartel (Some 2), cartel (Some 3), cartel (Some 4), cartel (Some 5)],
     artist_socials = [red_artista], group_socials = [red_grupo]\<rparr>"

definition db_cuatro :: db where
  "db_cuatro = db_completo\<lparr>
     artist_images := [foto (Some 1), foto (Some 2), foto (Some 3), foto (Some 4)],
     group_images := [cartel (Some 1), cartel (Some 2), cartel (Some 3), cartel (Some 4)]\<rparr>"

definition db_trovadores :: db where
  "db_trovadores = db_ana\<lparr>agrupaciones := [grupo]\<rparr>"

definition db_uno :: db where
  "db_uno = db_ana\<lparr>agrupaciones := [grupo\<lparr>ag_nombre := ''Uno'', ag_slug := ''los-trovadores-1''\<rparr>]\<rparr>"

lemmas sample_defs = empty_db_def ana_def trovadores_def db_ana_def musica_def danza_def genero_def
  artista_def grupo_def foto_def cartel_def red_artista_def red_grupo_def db_completo_def
  db_cuatro_def db_trovadores_def db_uno_def

section \<open>What \<open>Model.save\<close> does to an instance\<close>

lemma Model_save_cases:
  "Model_save get_pk set_pk pre_save ok self rows = (res, self', rows') \<Longrightarrow>
   (res = Inl IntegrityError \<and> rows' = rows \<and> (\<exists>add. self' = pre_save add self)) \<or>
   (res = Inr () \<and> (\<exists>add. self' = pre_save add self \<or> (\<exists>k. self' = set_pk k (pre_save add self))))"
  by (auto simp: Model_save_def Let_def split: if_splits option.splits)

lemma fold_max_ge: "m \<le> fold (\<lambda>k m. case k of None \<Rightarrow> m | Some i \<Rightarrow> max i m) ks (m::int)"
proof (induction ks arbitrary: m)
  case Nil
  show ?case by simp
next
  case (Cons k ks)
  show ?case
  proof (cases k)
    case None
    with Cons.IH [of m] show ?thesis by simp
  next
    case (Some i)
    with Cons.IH [of "max i m"] show ?thesis by simp
  qed
qed

lemma fold_max_bound:
  "Some i \<in> set ks \<Longrightarrow> i \<le> fold (\<lambda>k m. case k of None \<Rightarrow> m | Some i \<Rightarrow> max i m) ks (m::int)"
proof (induction ks arbitrary: m)
  case Nil
  then show ?case by simp
next
  case (Cons k ks)
  show ?case
  proof (cases "k = Some i")
    case True
    have "max i m \<le> fold (\<lambda>k m. case k of None \<Rightarrow> m | Some i \<Rightarrow> max i m) ks (max i m)"
      by (rule fold_max_ge)
    with True show ?thesis by simp
  next
    case False
    with Cons.prems have "Some i \<in> set ks" by simp
    then show ?thesis by (cases k) (simp_all add: Cons.IH)
  qed
qed

text \<open>The key of an insert is new to the table and true as a Python value.\<close>

lemma fresh_pk_fresh: "Some (fresh_pk ks) \<notin> set ks \<and> truthy (Some (fresh_pk ks))"
proof -
  have "0 \<le> fold (\<lambda>k m. case k of None \<Rightarrow> m | Some i \<Rightarrow> max i m) ks (0::int)"
    by (rule fold_max_ge)
  moreover have "False" if "Some (fresh_pk ks) \<in> set ks"
    using fold_max_bound [OF that, of 0] by (simp add: fresh_pk_def)
  ultimately show ?thesis by (auto simp: fresh_pk_def truthy_def)
qed

text \<open>Every row of a table keeps a key when an instance is saved into it.\<close>

lemma Model_save_has_keys:
  assumes "has_keys get_pk rows"
    and "\<And>k r. get_pk (set_pk k r) = Some k"
    and "\<And>add r. get_pk (pre_save add r) = get_pk r"
    and "Model_save get_pk set_pk pre_save ok self rows = (res, self', rows')"
  shows "has_keys get_pk rows'"
  using assms
  by (auto simp: Model_save_def Let_def has_keys_def image_iff split: if_splits option.splits)

lemma Agrupacion_super_save_fields:
  "Agrupacion_super_save now self d = (res, self', d') \<Longrightarrow>
   ag_slug self' = ag_slug self \<and> ag_nombre self' = ag_nombre self \<and>
   ag_administrador self' = ag_administrador self \<and> ag_descripcion self' = ag_descripcion self \<and>
   ag_perfil_imagen self' = ag_perfil_imagen self"
  unfolding Agrupacion_super_save_def
  by (auto split: prod.splits dest!: Model_save_cases)

section \<open>The slug probe\<close>

lemma probe_slug_free: "\<not> slug_exists d s \<Longrightarrow> probe_slug d base s c = s"
  by (subst probe_slug.simps) simp

lemma probe_slug_taken:
  "slug_exists d s \<Longrightarrow> probe_slug d base s c = probe_slug d base (suffixed base c) (c + 1)"
  by (subst probe_slug.simps) simp

lemma probe_slug_first_free:
  "s = candidate base k \<Longrightarrow> counter = Suc k \<Longrightarrow>
   \<exists>n\<ge>k. probe_slug d base s counter = candidate base n \<and> \<not> slug_exists d (candidate base n) \<and>
          (\<forall>m. k \<le> m \<and> m < n \<longrightarrow> slug_exists d (candidate base m))"
proof (induction d base s counter arbitrary: k rule: probe_slug.induct)
  case (1 d base s counter)
  show ?case
  proof (cases "slug_exists d s")
    case False
    then have "probe_slug d base s counter = s" by (rule probe_slug_free)
    with False "1.prems" show ?thesis by auto
  next
    case True
    have "suffixed base counter = candidate base (Suc k)"
      using "1.prems" by (simp add: candidate_def)
    moreover have "counter + 1 = Suc (Suc k)" using "1.prems" by simp
    ultimately obtain n where n: "Suc k \<le> n"
      "probe_slug d base (suffixed base counter) (counter + 1) = candidate base n"
      "\<not> slug_exists d (candidate base n)"
      "\<forall>m. Suc k \<le> m \<and> m < n \<longrightarrow> slug_exists d (candidate base m)"
      using "1.IH" [OF True] by blast
    have "probe_slug d base s counter = candidate base n"
      using n(2) by (simp only: probe_slug_taken [OF True])
    moreover have "\<forall>m. k \<le> m \<and> m < n \<longrightarrow> slug_exists d (candidate base m)"
    proof (intro allI impI)
      fix m assume m: "k \<le> m \<and> m < n"
      show "slug_exists d (candidate base m)"
      proof (cases "m = k")
        case True
        with \<open>slug_exists d s\<close> "1.prems" show ?thesis by simp
      next
        case False
        with m have "Suc k \<le> m \<and> m < n" by simp
        with n(4) show ?thesis by blast
      qed
    qed
    ultimately show ?thesis using n(1,3) by (intro exI [of _ n]) simp
  qed
qed



section \<open>Two groups of the same name\<close>

lemma Agrupacion_super_save_success:
  assumes "ag_pk s = None"
    and "ag_slug s \<notin> set (map ag_slug (agrupaciones d))"
    and "Some (ag_administrador s) \<in> set (map user_pk (users d))"
  shows "\<exists>s' d'. Agrupacion_super_save now s d = (Inr (), s', d') \<and> s' \<in> set (agrupaciones d') \<and>
           ag_slug s' = ag_slug s \<and> users d' = users d \<and>
           set (map ag_slug (agrupaciones d')) \<subseteq> insert (ag_slug s) (set (map ag_slug (agrupaciones d)))"
  using assms
  by (auto simp: Agrupacion_super_save_def Model_save_def Let_def)

lemma slugify_trovadores: "take 180 (slugify ''Los Trovadores'') = ''los-trovadores''"
  by code_simp

lemma suffixed_trovadores_1: "suffixed ''los-trovadores'' 1 = ''los-trovadores-1''"
  by code_simp

text \<open>
  C3, as amended. Saving a new group (an instance without a key, its administrator a
  stored user) named "Los Trovadores" with an empty slug, when no stored group has the
  slug \<open>los-trovadores\<close>, stores it with the slug \<open>los-trovadores\<close>; saving a second
  new group of the same name with an empty slug then stores it with the slug
  \<open>los-trovadores-1\<close>, provided no stored group had that slug already.
\<close>

theorem Agrupacion_save_two_trovadores:
  assumes "ag_pk a = None" and "ag_nombre a = ''Los Trovadores''" and "ag_slug a = []"
    and "Some (ag_administrador a) \<in> set (map user_pk (users d))"
    and "ag_pk b = None" and "ag_nombre b = ''Los Trovadores''" and "ag_slug b = []"
    and "Some (ag_administrador b) \<in> set (map user_pk (users d))"
    and "''los-trovadores'' \<notin> set (map ag_slug (agrupaciones d))"
  shows "\<exists>a' d1. Agrupacion_save now a d = (Inr (), a', d1) \<and> a' \<in> set (agrupaciones d1) \<and>
           ag_slug a' = ''los-trovadores'' \<and>
           (''los-trovadores-1'' \<notin> set (map ag_slug (agrupaciones d)) \<longrightarrow>
            (\<exists>b' d2. Agrupacion_save now' b d1 = (Inr (), b', d2) \<and> b' \<in> set (agrupaciones d2) \<and>
               ag_slug b' = ''los-trovadores-1''))"
proof -
  let ?base = "''los-trovadores''"
  have free: "\<not> slug_exists d ?base" using assms(9) by (simp add: slug_exists_def)
  then have p1: "probe_slug d ?base ?base 1 = ?base" by (rule probe_slug_free)
  let ?a1 = "a\<lparr>ag_slug := ?base\<rparr>"
  have sa: "Agrupacion_save now a d = Agrupacion_super_save now ?a1 d"
    using assms(2,3) p1 by (simp add: Agrupacion_save_def Let_def slugify_trovadores)
  have "ag_pk ?a1 = None" using assms(1) by simp
  moreover have "ag_slug ?a1 \<notin> set (map ag_slug (agrupaciones d))" using assms(9) by simp
  moreover have "Some (ag_administrador ?a1) \<in> set (map user_pk (users d))" using assms(4) by simp
  ultimately obtain a' d1 where a': "Agrupacion_super_save now ?a1 d = (Inr (), a', d1)"
    "a' \<in> set (agrupaciones d1)" "ag_slug a' = ag_slug ?a1" "users d1 = users d"
    "set (map ag_slug (agrupaciones d1)) \<subseteq> insert (ag_slug ?a1) (set (map ag_slug (agrupaciones d)))"
    using Agrupacion_super_save_success [of ?a1 d now] by blast
  have slug_a': "ag_slug a' = ?base" using a'(3) by simp
  have second: "\<exists>b' d2. Agrupacion_save now' b d1 = (Inr (), b', d2) \<and> b' \<in> set (agrupaciones d2) \<and>
               ag_slug b' = ''los-trovadores-1''"
    if free1: "''los-trovadores-1'' \<notin> set (map ag_slug (agrupaciones d))"
  proof -
    have taken: "slug_exists d1 ?base"
      unfolding slug_exists_def using a'(2) slug_a' by (metis image_eqI set_map)
    have nf: "''los-trovadores-1'' \<notin> set (map ag_slug (agrupaciones d1))"
      using a'(5) free1 by auto
    then have "\<not> slug_exists d1 ''los-trovadores-1''" by (simp add: slug_exists_def)
    then have "probe_slug d1 ?base ''los-trovadores-1'' (1 + 1) = ''los-trovadores-1''"
      by (rule probe_slug_free)
    with probe_slug_taken [OF taken, of ?base 1]
    have p2: "probe_slug d1 ?base ?base 1 = ''los-trovadores-1''"
      by (simp only: suffixed_trovadores_1)
    let ?b1 = "b\<lparr>ag_slug := ''los-trovadores-1''\<rparr>"
    have sb: "Agrupacion_save now' b d1 = Agrupacion_super_save now' ?b1 d1"
      using assms(6,7) p2 by (simp add: Agrupacion_save_def Let_def slugify_trovadores)
    have "ag_pk ?b1 = None" using assms(5) by simp
    moreover have "ag_slug ?b1 \<notin> set (map ag_slug (agrupaciones d1))" using nf by simp
    moreover have "Some (ag_administrador ?b1) \<in> set (map user_pk (users d1))"
      using assms(8) a'(4) by simp
    ultimately obtain b' d2 where "Agrupacion_super_save now' ?b1 d1 = (Inr (), b', d2)"
      "b' \<in> set (agrupaciones d2)" "ag_slug b' = ag_slug ?b1"
      using Agrupacion_super_save_success [of ?b1 d1 now'] by blast
    with sb show ?thesis by simp
  qed
  from sa a'(1,2) slug_a' second show ?thesis by simp
qed

theorem Agrupacion_save_two_trovadores_witness:
  "\<exists>a' d1. Agrupacion_save 1 trovadores db_ana = (Inr (), a', d1) \<and> a' \<in> set (agrupaciones d1) \<and>
     ag_slug a' = ''los-trovadores'' \<and>
     (\<exists>b' d2. Agrupacion_save 2 trovadores d1 = (Inr (), b', d2) \<and> b' \<in> set (agrupaciones d2) \<and>
        ag_slug b' = ''los-trovadores-1'')"
  using Agrupacion_save_two_trovadores [of trovadores db_ana trovadores 1 2]
  by (simp add: sample_defs)

text \<open>
  The claim as stated fails where a stored group already has the slug
  \<open>los-trovadores-1\<close> and none has \<open>los-trovadores\<close>: the second group then gets
  \<open>los-trovadores-2\<close>.
\<close>

theorem second_trovadores_gets_2:
  "''los-trovadores'' \<notin> set (map ag_slug (agrupaciones db_uno)) \<and>
   ag_slug (fst (snd (Agrupacion_save 1 trovadores db_uno))) = ''los-trovadores'' \<and>
   ag_slug (fst (snd (Agrupacion_save 2 trovadores (snd (snd (Agrupacion_save 1 trovadores db_uno))))))
     = ''los-trovadores-2''"
  by code_simp

section \<open>At most five images per owner\<close>

lemma ArtistImage_save_new:
  assumes "ai_pk img = None"
  shows "ArtistImage_save now img d =
     (if Some (ai_artist img) \<notin> set (map ap_pk (artist_profiles d))
      then (Inl DoesNotExist, img, d)
      else if 5 \<le> length (filter (\<lambda>r. ai_artist r = ai_artist img) (artist_images d))
      then (Inl ValidationError, img, d)
      else (Inr (), img\<lparr>ai_pk := Some (fresh_pk (map ai_pk (artist_images d))), ai_creado_en := Some now\<rparr>,
            d\<lparr>artist_images := artist_images d @
               [img\<lparr>ai_pk := Some (fresh_pk (map ai_pk (artist_images d))), ai_creado_en := Some now\<rparr>]\<rparr>))"
  using assms
  by (simp add: ArtistImage_save_def ArtistImage_clean_def ArtistImage_artist_def truthy_def
      ArtistImage_super_save_def Model_save_def Let_def)

lemma GroupImage_save_new:
  assumes "gi_pk img = None"
  shows "GroupImage_save now img d =
     (if Some (gi_agrupacion img) \<notin> set (map ag_pk (agrupaciones d))
      then (Inl DoesNotExist, img, d)
      else if 5 \<le> length (filter (\<lambda>r. gi_agrupacion r = gi_agrupacion img) (group_images d))
      then (Inl ValidationError, img, d)
      else (Inr (), img\<lparr>gi_pk := Some (fresh_pk (map gi_pk (group_images d))), gi_creado_en := Some now\<rparr>,
            d\<lparr>group_images := group_images d @
               [img\<lparr>gi_pk := Some (fresh_pk (map gi_pk (group_images d))), gi_creado_en := Some now\<rparr>]\<rparr>))"
  using assms
  by (simp add: GroupImage_save_def GroupImage_clean_def GroupImage_agrupacion_def truthy_def
      GroupImage_super_save_def Model_save_def Let_def)

text \<open>
  C1, as amended. Saving a new \<open>ArtistImage\<close> (resp. \<open>GroupImage\<close>) of a stored owner
  raises \<open>ValidationError\<close> when the owner already has 5 or more images, that is from the
  6th image on, and nothing is stored; when the owner has fewer than 5 images, that is
  for the 1st to the 5th image, the save succeeds and appends the image. The save fails
  whenever the owner's image count would exceed 5. For an owner that is not stored the
  save raises \<open>DoesNotExist\<close>, whatever the count, and nothing is stored.
\<close>

theorem image_save_raises_from_sixth:
  "(ai_pk img = None \<and> Some (ai_artist img) \<in> set (map ap_pk (artist_profiles d)) \<and>
    5 \<le> length (filter (\<lambda>r. ai_artist r = ai_artist img) (artist_images d)) \<longrightarrow>
      ArtistImage_save now img d = (Inl ValidationError, img, d)) \<and>
   (ai_pk img = None \<and> Some (ai_artist img) \<in> set (map ap_pk (artist_profiles d)) \<and>
    length (filter (\<lambda>r. ai_artist r = ai_artist img) (artist_images d)) < 5 \<longrightarrow>
      (\<exists>img'. ArtistImage_save now img d = (Inr (), img', d\<lparr>artist_images := artist_images d @ [img']\<rparr>) \<and>
              ai_artist img' = ai_artist img)) \<and>
   (gi_pk gimg = None \<and> Some (gi_agrupacion gimg) \<in> set (map ag_pk (agrupaciones d)) \<and>
    5 \<le> length (filter (\<lambda>r. gi_agrupacion r = gi_agrupacion gimg) (group_images d)) \<longrightarrow>
      GroupImage_save now gimg d = (Inl ValidationError, gimg, d)) \<and>
   (gi_pk gimg = None \<and> Some (gi_agrupacion gimg) \<in> set (map ag_pk (agrupaciones d)) \<and>
    length (filter (\<lambda>r. gi_agrupacion r = gi_agrupacion gimg) (group_images d)) < 5 \<longrightarrow>
      (\<exists>gimg'. GroupImage_save now gimg d = (Inr (), gimg', d\<lparr>group_images := group_images d @ [gimg']\<rparr>) \<and>
              gi_agrupacion gimg' = gi_agrupacion gimg)) \<and>
   (ai_pk img = None \<and> Some (ai_artist img) \<notin> set (map ap_pk (artist_profiles d)) \<longrightarrow>
      ArtistImage_save now img d = (Inl DoesNotExist, img, d)) \<and>
   (gi_pk gimg = None \<and> Some (gi_agrupacion gimg) \<notin> set (map ag_pk (agrupaciones d)) \<longrightarrow>
      GroupImage_save now gimg d = (Inl DoesNotExist, gimg, d))"
proof (intro conjI impI)
  assume "ai_pk img = None \<and> Some (ai_artist img) \<notin> set (map ap_pk (artist_profiles d))"
  then show "ArtistImage_save now img d = (Inl DoesNotExist, img, d)"
    by (simp add: ArtistImage_save_new)
next
  assume "gi_pk gimg = None \<and> Some (gi_agrupacion gimg) \<notin> set (map ag_pk (agrupaciones d))"
  then show "GroupImage_save now gimg d = (Inl DoesNotExist, gimg, d)"
    by (simp add: GroupImage_save_new)
next
  assume "ai_pk img = None \<and> Some (ai_artist img) \<in> set (map ap_pk (artist_profiles d)) \<and>
    5 \<le> length (filter (\<lambda>r. ai_artist r = ai_artist img) (artist_images d))"
  then show "ArtistImage_save now img d = (Inl ValidationError, img, d)"
    by (simp add: ArtistImage_save_new)
next
  assume "ai_pk img = None \<and> Some (ai_artist img) \<in> set (map ap_pk (artist_profiles d)) \<and>
    length (filter (\<lambda>r. ai_artist r = ai_artist img) (artist_images d)) < 5"
  then show "\<exists>img'. ArtistImage_save now img d = (Inr (), img', d\<lparr>artist_images := artist_images d @ [img']\<rparr>) \<and>
              ai_artist img' = ai_artist img"
    by (simp add: ArtistImage_save_new)
next
  assume "gi_pk gimg = None \<and> Some (gi_agrupacion gimg) \<in> set (map ag_pk (agrupaciones d)) \<and>
    5 \<le> length (filter (\<lambda>r. gi_agrupacion r = gi_agrupacion gimg) (group_images d))"
  then show "GroupImage_save now gimg d = (Inl ValidationError, gimg, d)"
    by (simp add: GroupImage_save_new)
next
  assume "gi_pk gimg = None \<and> Some (gi_agrupacion gimg) \<in> set (map ag_pk (agrupaciones d)) \<and>
    length (filter (\<lambda>r. gi_agrupacion r = gi_agrupacion gimg) (group_images d)) < 5"
  then show "\<exists>gimg'. GroupImage_save now gimg d = (Inr (), gimg', d\<lparr>group_images := group_images d @ [gimg']\<rparr>) \<and>
              gi_agrupacion gimg' = gi_agrupacion gimg"
    by (simp add: GroupImage_save_new)
qed

theorem image_save_raises_from_sixth_witness:
  "ArtistImage_save 9 (foto None) db_completo = (Inl ValidationError, foto None, db_completo) \<and>
   (\<exists>img'. ArtistImage_save 9 (foto None) db_cuatro
             = (Inr (), img', db_cuatro\<lparr>artist_images := artist_images db_cuatro @ [img']\<rparr>) \<and>
           ai_artist img' = ai_artist (foto None)) \<and>
   GroupImage_save 9 (cartel None) db_completo = (Inl ValidationError, cartel None, db_completo) \<and>
   (\<exists>gimg'. GroupImage_save 9 (cartel None) db_cuatro
             = (Inr (), gimg', db_cuatro\<lparr>group_images := group_images db_cuatro @ [gimg']\<rparr>) \<and>
           gi_agrupacion gimg' = gi_agrupacion (cartel None)) \<and>
   ArtistImage_save 9 (foto None\<lparr>ai_artist := 7\<rparr>) db_completo
     = (Inl DoesNotExist, foto None\<lparr>ai_artist := 7\<rparr>, db_completo) \<and>
   GroupImage_save 9 (cartel None\<lparr>gi_agrupacion := 7\<rparr>) db_completo
     = (Inl DoesNotExist, cartel None\<lparr>gi_agrupacion := 7\<rparr>, db_completo)"
  using image_save_raises_from_sixth [of "foto None" db_completo 9 "cartel None"]
    image_save_raises_from_sixth [of "foto None" db_cuatro 9 "cartel None"]
    image_save_raises_from_sixth [of "foto None\<lparr>ai_artist := 7\<rparr>" db_completo 9
      "cartel None\<lparr>gi_agrupacion := 7\<rparr>"]
  by (simp add: sample_defs)

text \<open>
  The claim as stated fails at the 5th image: with 4 images stored for the owner the save
  succeeds and the owner has 5 images afterwards.
\<close>

theorem fifth_image_is_saved:
  "ai_pk (foto None) = None \<and> ai_artist (foto None) = 1 \<and>
   map ai_artist (artist_images db_cuatro) = [1, 1, 1, 1] \<and>
   fst (ArtistImage_save 9 (foto None) db_cuatro) = Inr () \<and>
   map ai_artist (artist_images (snd (snd (ArtistImage_save 9 (foto None) db_cuatro)))) = [1, 1, 1, 1, 1] \<and>
   gi_pk (cartel None) = None \<and> gi_agrupacion (cartel None) = 1 \<and>
   map gi_agrupacion (group_images db_cuatro) = [1, 1, 1, 1] \<and>
   fst (GroupImage_save 9 (cartel None) db_cuatro) = Inr () \<and>
   map gi_agrupacion (group_images (snd (snd (GroupImage_save 9 (cartel None) db_cuatro)))) = [1, 1, 1, 1, 1]"
  by (simp add: ArtistImage_save_new GroupImage_save_new sample_defs)

lemma length_filter_excluding:
  assumes "x \<in> set xs" and "P x" and "\<not> Q x"
  shows "length (filter (\<lambda>r. P r \<and> Q r) xs) < length (filter P xs)"
proof -
  have "filter (\<lambda>r. P r \<and> Q r) xs = filter Q (filter P xs)"
    by (simp add: conj_commute)
  moreover from assms have "x \<in> set (filter P xs)" by simp
  then have "length (filter Q (filter P xs)) < length (filter P xs)"
    using assms(3) by (rule length_filter_less)
  ultimately show ?thesis by simp
qed

lemma ArtistImage_clean_stored:
  assumes "Some (ai_artist img) \<in> set (map ap_pk (artist_profiles d))"
  shows "ArtistImage_clean img d =
     (if 5 \<le> length (filter (\<lambda>r. ai_artist r = ai_artist img \<and> \<not> (truthy (ai_pk img) \<and> ai_pk r = ai_pk img))
                        (artist_images d))
      then (Inl ValidationError, img, d) else (Inr (), img, d))"
  using assms by (simp add: ArtistImage_clean_def ArtistImage_artist_def conj_commute)

lemma ArtistImage_clean_unstored:
  assumes "Some (ai_artist img) \<notin> set (map ap_pk (artist_profiles d))"
  shows "ArtistImage_clean img d = (Inl DoesNotExist, img, d)"
  using assms by (simp add: ArtistImage_clean_def ArtistImage_artist_def)

lemma GroupImage_clean_stored:
  assumes "Some (gi_agrupacion gimg) \<in> set (map ag_pk (agrupaciones d))"
  shows "GroupImage_clean gimg d =
     (if 5 \<le> length (filter (\<lambda>r. gi_agrupacion r = gi_agrupacion gimg \<and>
                                   \<not> (truthy (gi_pk gimg) \<and> gi_pk r = gi_pk gimg))
                        (group_images d))
      then (Inl ValidationError, gimg, d) else (Inr (), gimg, d))"
  using assms by (simp add: GroupImage_clean_def GroupImage_agrupacion_def conj_commute)

lemma GroupImage_clean_unstored:
  assumes "Some (gi_agrupacion gimg) \<notin> set (map ag_pk (agrupaciones d))"
  shows "GroupImage_clean gimg d = (Inl DoesNotExist, gimg, d)"
  using assms by (simp add: GroupImage_clean_def GroupImage_agrupacion_def)

lemma filter_five_member: "5 \<le> length (filter P xs) \<Longrightarrow> \<exists>x\<in>set xs. P x"
proof -
  assume "5 \<le> length (filter P xs)"
  then have "filter P xs \<noteq> []" by auto
  then show ?thesis by (simp add: filter_empty_conv)
qed

text \<open>
  C2. The check of \<open>ArtistImage.clean\<close> (resp. \<open>GroupImage.clean\<close>) counts the stored
  images of the same owner, leaving out the row of the instance itself when the instance
  has a key (\<open>self.pk\<close> is true), and raises \<open>ValidationError\<close> exactly when that count
  of siblings is 5 or more: for a stored owner the outcome is decided by that count alone,
  for an owner that is not stored reading the owner raises \<open>DoesNotExist\<close>, and in a
  state where every stored image has a stored owner the check raises \<open>ValidationError\<close>
  if and only if the count is 5 or more. In particular the check passes for an update of
  a stored image whose (stored) owner has exactly 5 images.
\<close>

theorem image_clean_counts_siblings:
  "(Some (ai_artist img) \<in> set (map ap_pk (artist_profiles d)) \<longrightarrow>
      ArtistImage_clean img d =
        (if 5 \<le> length (filter (\<lambda>r. ai_artist r = ai_artist img \<and>
                                      \<not> (truthy (ai_pk img) \<and> ai_pk r = ai_pk img))
                           (artist_images d))
         then (Inl ValidationError, img, d) else (Inr (), img, d))) \<and>
   (Some (ai_artist img) \<notin> set (map ap_pk (artist_profiles d)) \<longrightarrow>
      ArtistImage_clean img d = (Inl DoesNotExist, img, d)) \<and>
   (images_have_owners d \<longrightarrow>
      (fst (ArtistImage_clean img d) = Inl ValidationError \<longleftrightarrow>
       5 \<le> length (filter (\<lambda>r. ai_artist r = ai_artist img \<and>
                                  \<not> (truthy (ai_pk img) \<and> ai_pk r = ai_pk img))
                       (artist_images d)))) \<and>
   (r \<in> set (artist_images d) \<and> truthy (ai_pk r) \<and> ai_pk img = ai_pk r \<and> ai_artist img = ai_artist r \<and>
    Some (ai_artist r) \<in> set (map ap_pk (artist_profiles d)) \<and>
    length (filter (\<lambda>x. ai_artist x = ai_artist r) (artist_images d)) = 5 \<longrightarrow>
      ArtistImage_clean img d = (Inr (), img, d)) \<and>
   (Some (gi_agrupacion gimg) \<in> set (map ag_pk (agrupaciones d)) \<longrightarrow>
      GroupImage_clean gimg d =
        (if 5 \<le> length (filter (\<lambda>r. gi_agrupacion r = gi_agrupacion gimg \<and>
                                      \<not> (truthy (gi_pk gimg) \<and> gi_pk r = gi_pk gimg))
                           (group_images d))
         then (Inl ValidationError, gimg, d) else (Inr (), gimg, d))) \<and>
   (Some (gi_agrupacion gimg) \<notin> set (map ag_pk (agrupaciones d)) \<longrightarrow>
      GroupImage_clean gimg d = (Inl DoesNotExist, gimg, d)) \<and>
   (images_have_owners d \<longrightarrow>
      (fst (GroupImage_clean gimg d) = Inl ValidationError \<longleftrightarrow>
       5 \<le> length (filter (\<lambda>r. gi_agrupacion r = gi_agrupacion gimg \<and>
                                  \<not> (truthy (gi_pk gimg) \<and> gi_pk r = gi_pk gimg))
                       (group_images d)))) \<and>
   (g \<in> set (group_images d) \<and> truthy (gi_pk g) \<and> gi_pk gimg = gi_pk g \<and>
    gi_agrupacion gimg = gi_agrupacion g \<and>
    Some (gi_agrupacion g) \<in> set (map ag_pk (agrupaciones d)) \<and>
    length (filter (\<lambda>x. gi_agrupacion x = gi_agrupacion g) (group_images d)) = 5 \<longrightarrow>
      GroupImage_clean gimg d = (Inr (), gimg, d))"
proof -
  let ?sib = "length (filter (\<lambda>r. ai_artist r = ai_artist img \<and>
                                 \<not> (truthy (ai_pk img) \<and> ai_pk r = ai_pk img)) (artist_images d))"
  let ?gsib = "length (filter (\<lambda>r. gi_agrupacion r = gi_agrupacion gimg \<and>
                                  \<not> (truthy (gi_pk gimg) \<and> gi_pk r = gi_pk gimg)) (group_images d))"
  have a_iff: "fst (ArtistImage_clean img d) = Inl ValidationError \<longleftrightarrow> 5 \<le> ?sib"
    if inv: "images_have_owners d"
  proof (cases "Some (ai_artist img) \<in> set (map ap_pk (artist_profiles d))")
    case True
    then show ?thesis by (simp add: ArtistImage_clean_stored)
  next
    case False
    have "\<not> 5 \<le> ?sib"
    proof
      assume "5 \<le> ?sib"
      then obtain x where "x \<in> set (artist_images d)" "ai_artist x = ai_artist img"
        by (blast dest: filter_five_member)
      with inv have "Some (ai_artist img) \<in> set (map ap_pk (artist_profiles d))"
        by (auto simp: images_have_owners_def)
      with False show False by simp
    qed
    with False show ?thesis by (simp add: ArtistImage_clean_unstored)
  qed
  have g_iff: "fst (GroupImage_clean gimg d) = Inl ValidationError \<longleftrightarrow> 5 \<le> ?gsib"
    if inv: "images_have_owners d"
  proof (cases "Some (gi_agrupacion gimg) \<in> set (map ag_pk (agrupaciones d))")
    case True
    then show ?thesis by (simp add: GroupImage_clean_stored)
  next
    case False
    have "\<not> 5 \<le> ?gsib"
    proof
      assume "5 \<le> ?gsib"
      then obtain x where "x \<in> set (group_images d)" "gi_agrupacion x = gi_agrupacion gimg"
        by (blast dest: filter_five_member)
      with inv have "Some (gi_agrupacion gimg) \<in> set (map ag_pk (agrupaciones d))"
        by (auto simp: images_have_owners_def)
      with False show False by simp
    qed
    with False show ?thesis by (simp add: GroupImage_clean_unstored)
  qed
  have a_upd: "ArtistImage_clean img d = (Inr (), img, d)"
    if h: "r \<in> set (artist_images d) \<and> truthy (ai_pk r) \<and> ai_pk img = ai_pk r \<and> ai_artist img = ai_artist r \<and>
      Some (ai_artist r) \<in> set (map ap_pk (artist_profiles d)) \<and>
      length (filter (\<lambda>x. ai_artist x = ai_artist r) (artist_images d)) = 5"
  proof -
    from h have "length (filter (\<lambda>x. ai_artist x = ai_artist r \<and> ai_pk x \<noteq> ai_pk r) (artist_images d))
        < length (filter (\<lambda>x. ai_artist x = ai_artist r) (artist_images d))"
      by (intro length_filter_excluding [of r]) simp_all
    with h show ?thesis by (simp add: ArtistImage_clean_stored)
  qed
  have g_upd: "GroupImage_clean gimg d = (Inr (), gimg, d)"
    if h: "g \<in> set (group_images d) \<and> truthy (gi_pk g) \<and> gi_pk gimg = gi_pk g \<and>
      gi_agrupacion gimg = gi_agrupacion g \<and>
      Some (gi_agrupacion g) \<in> set (map ag_pk (agrupaciones d)) \<and>
      length (filter (\<lambda>x. gi_agrupacion x = gi_agrupacion g) (group_images d)) = 5"
  proof -
    from h have "length (filter (\<lambda>x. gi_agrupacion x = gi_agrupacion g \<and> gi_pk x \<noteq> gi_pk g) (group_images d))
        < length (filter (\<lambda>x. gi_agrupacion x = gi_agrupacion g) (group_images d))"
      by (intro length_filter_excluding [of g]) simp_all
    with h show ?thesis by (simp add: GroupImage_clean_stored)
  qed
  show ?thesis
    using a_iff g_iff a_upd g_upd
    by (intro conjI impI)
      (simp_all add: ArtistImage_clean_stored ArtistImage_clean_unstored
        GroupImage_clean_stored GroupImage_clean_unstored)
qed

theorem image_clean_counts_siblings_witness:
  "images_have_owners db_completo \<and>
   ArtistImage_clean (foto (Some 3)\<lparr>ai_titulo := Some ''Retrato''\<rparr>) db_completo
     = (Inr (), foto (Some 3)\<lparr>ai_titulo := Some ''Retrato''\<rparr>, db_completo) \<and>
   GroupImage_clean (cartel (Some 5)\<lparr>gi_orden := 2\<rparr>) db_completo
     = (Inr (), cartel (Some 5)\<lparr>gi_orden := 2\<rparr>, db_completo) \<and>
   ArtistImage_clean (foto None) db_completo = (Inl ValidationError, foto None, db_completo) \<and>
   GroupImage_clean (cartel None) db_completo = (Inl ValidationError, cartel None, db_completo) \<and>
   ArtistImage_clean (foto None\<lparr>ai_artist := 7\<rparr>) db_completo
     = (Inl DoesNotExist, foto None\<lparr>ai_artist := 7\<rparr>, db_completo) \<and>
   GroupImage_clean (cartel None\<lparr>gi_agrupacion := 7\<rparr>) db_completo
     = (Inl DoesNotExist, cartel None\<lparr>gi_agrupacion := 7\<rparr>, db_completo)"
proof -
  have inv: "images_have_owners db_completo"
    by (simp add: images_have_owners_def sample_defs)
  from inv
    image_clean_counts_siblings [of "foto (Some 3)\<lparr>ai_titulo := Some ''Retrato''\<rparr>" db_completo
      "foto (Some 3)" "cartel (Some 5)\<lparr>gi_orden := 2\<rparr>" "cartel (Some 5)"]
    image_clean_counts_siblings [of "foto None" db_completo "foto (Some 3)" "cartel None" "cartel (Some 5)"]
    image_clean_counts_siblings [of "foto None\<lparr>ai_artist := 7\<rparr>" db_completo "foto (Some 3)"
      "cartel None\<lparr>gi_agrupacion := 7\<rparr>" "cartel (Some 5)"]
  show ?thesis by (simp add: sample_defs truthy_def)
qed

section \<open>Validation on the save path\<close>

lemma ArtistImage_clean_frame: "snd (ArtistImage_clean img d) = (img, d)"
  by (simp add: ArtistImage_clean_def split: sum.splits)

lemma GroupImage_clean_frame: "snd (GroupImage_clean gimg d) = (gimg, d)"
  by (simp add: GroupImage_clean_def split: sum.splits)

text \<open>
  C6. \<open>ArtistImage.save\<close> and \<open>GroupImage.save\<close> run the image-count check first: when
  it raises, the save raises the same error and returns the instance and the stored
  state unchanged, nothing being written; when it returns, the save is the framework's
  save. The saves of \<open>ArtistProfile\<close> and \<open>Agrupacion\<close> never raise \<open>ValidationError\<close>:
  the genre-count check is not part of them.
\<close>

theorem image_save_runs_clean_first:
  "(fst (ArtistImage_clean img d) = Inl e \<longrightarrow> ArtistImage_save now img d = (Inl e, img, d)) \<and>
   (fst (ArtistImage_clean img d) = Inr () \<longrightarrow>
      ArtistImage_save now img d = ArtistImage_super_save now img d) \<and>
   (fst (GroupImage_clean gimg d) = Inl ge \<longrightarrow> GroupImage_save now gimg d = (Inl ge, gimg, d)) \<and>
   (fst (GroupImage_clean gimg d) = Inr () \<longrightarrow>
      GroupImage_save now gimg d = GroupImage_super_save now gimg d) \<and>
   fst (ArtistProfile_save now p d) \<noteq> Inl ValidationError \<and>
   fst (Agrupacion_save now a d) \<noteq> Inl ValidationError"
proof (intro conjI impI)
  assume "fst (ArtistImage_clean img d) = Inl e"
  with ArtistImage_clean_frame [of img d] have "ArtistImage_clean img d = (Inl e, img, d)"
    by (cases "ArtistImage_clean img d") simp
  then show "ArtistImage_save now img d = (Inl e, img, d)"
    by (simp add: ArtistImage_save_def)
next
  assume "fst (ArtistImage_clean img d) = Inr ()"
  with ArtistImage_clean_frame [of img d] have "ArtistImage_clean img d = (Inr (), img, d)"
    by (cases "ArtistImage_clean img d") simp
  then show "ArtistImage_save now img d = ArtistImage_super_save now img d"
    by (simp add: ArtistImage_save_def)
next
  assume "fst (GroupImage_clean gimg d) = Inl ge"
  with GroupImage_clean_frame [of gimg d] have "GroupImage_clean gimg d = (Inl ge, gimg, d)"
    by (cases "GroupImage_clean gimg d") simp
  then show "GroupImage_save now gimg d = (Inl ge, gimg, d)"
    by (simp add: GroupImage_save_def)
next
  assume "fst (GroupImage_clean gimg d) = Inr ()"
  with GroupImage_clean_frame [of gimg d] have "GroupImage_clean gimg d = (Inr (), gimg, d)"
    by (cases "GroupImage_clean gimg d") simp
  then show "GroupImage_save now gimg d = GroupImage_super_save now gimg d"
    by (simp add: GroupImage_save_def)
next
  obtain res p' d' where sv: "ArtistProfile_save now p d = (res, p', d')"
    using prod_cases3 by blast
  then have "res \<noteq> Inl ValidationError"
    by (auto simp: ArtistProfile_save_def split: prod.splits dest!: Model_save_cases)
  with sv show "fst (ArtistProfile_save now p d) \<noteq> Inl ValidationError" by simp
next
  obtain res a' d' where sv: "Agrupacion_save now a d = (res, a', d')"
    using prod_cases3 by blast
  then obtain a1 where "Agrupacion_super_save now a1 d = (res, a', d')"
    by (auto simp: Agrupacion_save_def Let_def split: if_splits)
  then have "res \<noteq> Inl ValidationError"
    by (auto simp: Agrupacion_super_save_def split: prod.splits dest!: Model_save_cases)
  with sv show "fst (Agrupacion_save now a d) \<noteq> Inl ValidationError" by simp
qed

theorem image_save_runs_clean_first_witness:
  "fst (ArtistImage_clean (foto None) db_completo) = Inl ValidationError \<and>
   ArtistImage_save 9 (foto None) db_completo = (Inl ValidationError, foto None, db_completo) \<and>
   fst (GroupImage_clean (cartel None) db_completo) = Inl ValidationError \<and>
   GroupImage_save 9 (cartel None) db_completo = (Inl ValidationError, cartel None, db_completo) \<and>
   fst (ArtistImage_clean (foto None) db_cuatro) = Inr () \<and>
   ArtistImage_save 9 (foto None) db_cuatro = ArtistImage_super_save 9 (foto None) db_cuatro \<and>
   fst (GroupImage_clean (cartel None) db_cuatro) = Inr () \<and>
   GroupImage_save 9 (cartel None) db_cuatro = GroupImage_super_save 9 (cartel None) db_cuatro \<and>
   fst (ArtistProfile_clean artista db_completo) = Inl ValidationError \<and>
   fst (ArtistProfile_save 9 artista db_completo) = Inr () \<and>
   fst (Agrupacion_clean grupo db_completo) = Inl ValidationError \<and>
   fst (Agrupacion_save 9 grupo db_completo) = Inr ()"
proof -
  have c1: "fst (ArtistImage_clean (foto None) db_completo) = Inl ValidationError"
    and c2: "fst (GroupImage_clean (cartel None) db_completo) = Inl ValidationError"
    and c3: "fst (ArtistImage_clean (foto None) db_cuatro) = Inr ()"
    and c4: "fst (GroupImage_clean (cartel None) db_cuatro) = Inr ()"
    by (simp_all add: ArtistImage_clean_def GroupImage_clean_def ArtistImage_artist_def
        GroupImage_agrupacion_def truthy_def sample_defs)
  have c5: "fst (ArtistProfile_clean artista db_completo) = Inl ValidationError"
    and c6: "fst (Agrupacion_clean grupo db_completo) = Inl ValidationError"
    by (simp_all add: ArtistProfile_clean_def Agrupacion_clean_def related_count_def truthy_def sample_defs)
  have s1: "fst (ArtistProfile_save 9 artista db_completo) = Inr ()"
    by (simp add: ArtistProfile_save_def Model_save_def Let_def sample_defs)
  have s2: "fst (Agrupacion_save 9 grupo db_completo) = Inr ()"
    by (simp add: Agrupacion_save_def Agrupacion_super_save_def Model_save_def Let_def sample_defs)
  from image_save_runs_clean_first [of "foto None" db_completo ValidationError 9 "cartel None" ValidationError]
    image_save_runs_clean_first [of "foto None" db_cuatro e 9 "cartel None" ge]
    c1 c2 c3 c4 c5 c6 s1 s2
  show ?thesis by simp
qed

section \<open>At most three genres\<close>

text \<open>
  C4. For an \<open>ArtistProfile\<close> or \<open>Agrupacion\<close> that has a key (\<open>self.pk\<close> is true),
  \<open>clean\<close> raises \<open>ValidationError\<close> exactly when the number of its genres exceeds 3;
  for an instance without a key \<open>clean\<close> never raises. Either way \<open>clean\<close> leaves the
  instance and the stored state as they are.
\<close>

theorem genre_clean_limit_three:
  "(truthy (ap_pk p) \<longrightarrow>
      ArtistProfile_clean p d =
        (if 3 < related_count (artistprofile_generos d) (ap_pk p) then Inl ValidationError else Inr (), p, d)) \<and>
   (\<not> truthy (ap_pk p) \<longrightarrow> ArtistProfile_clean p d = (Inr (), p, d)) \<and>
   (truthy (ag_pk a) \<longrightarrow>
      Agrupacion_clean a d =
        (if 3 < related_count (agrupacion_generos d) (ag_pk a) then Inl ValidationError else Inr (), a, d)) \<and>
   (\<not> truthy (ag_pk a) \<longrightarrow> Agrupacion_clean a d = (Inr (), a, d))"
  by (simp add: ArtistProfile_clean_def Agrupacion_clean_def Let_def)

theorem genre_clean_limit_three_witness:
  "ArtistProfile_clean artista db_completo = (Inl ValidationError, artista, db_completo) \<and>
   ArtistProfile_clean artista db_ana = (Inr (), artista, db_ana) \<and>
   ArtistProfile_clean (artista\<lparr>ap_pk := None\<rparr>) db_completo = (Inr (), artista\<lparr>ap_pk := None\<rparr>, db_completo) \<and>
   Agrupacion_clean grupo db_completo = (Inl ValidationError, grupo, db_completo) \<and>
   Agrupacion_clean grupo db_ana = (Inr (), grupo, db_ana) \<and>
   Agrupacion_clean trovadores db_completo = (Inr (), trovadores, db_completo)"
  using genre_clean_limit_three [of artista db_completo grupo]
    genre_clean_limit_three [of artista db_ana grupo]
    genre_clean_limit_three [of "artista\<lparr>ap_pk := None\<rparr>" db_completo trovadores]
  by (simp add: related_count_def truthy_def sample_defs)

section \<open>Saving a group that has a slug\<close>

lemma Agrupacion_super_save_stored:
  assumes "Agrupacion_super_save now a d = (Inr (), a', d')"
  shows "a' \<in> set (agrupaciones d')"
proof (cases "ag_pk a = None \<or> ag_pk a \<notin> set (map ag_pk (agrupaciones d))")
  case True
  with assms show ?thesis
    by (auto simp: Agrupacion_super_save_def Model_save_def Let_def split: if_splits option.splits)
next
  case False
  then obtain r where "r \<in> set (agrupaciones d)" "ag_pk r = ag_pk a" by auto
  with False assms show ?thesis
    by (auto simp: Agrupacion_super_save_def Model_save_def Let_def image_iff split: if_splits)
qed

lemma Agrupacion_super_save_collision:
  assumes "r \<in> set (agrupaciones d)" and "ag_pk r \<noteq> ag_pk a" and "ag_slug r = ag_slug a"
    and "Agrupacion_super_save now a d = (res, a', d')"
  shows "res = Inl IntegrityError \<and> d' = d"
proof -
  let ?others = "if ag_pk a = None \<or> ag_pk a \<notin> set (map ag_pk (agrupaciones d)) then agrupaciones d
                 else filter (\<lambda>r. ag_pk r \<noteq> ag_pk a) (agrupaciones d)"
  from assms(1,2) have "r \<in> set ?others" by simp
  with assms(3) have "ag_slug a \<in> set (map ag_slug ?others)" by (metis image_eqI set_map)
  with assms(4) show ?thesis
    by (auto simp: Agrupacion_super_save_def Model_save_def Let_def split: if_splits)
qed

lemma Agrupacion_super_save_automatic:
  assumes "Agrupacion_super_save now a d = (Inr (), a', d')"
  shows "ag_actualizado_en a' = Some now \<and>
         ag_creado_en a' = (if ag_pk a = None \<or> ag_pk a \<notin> set (map ag_pk (agrupaciones d))
                            then Some now else ag_creado_en a) \<and>
         (ag_pk a \<noteq> None \<longrightarrow> ag_pk a' = ag_pk a) \<and>
         (ag_pk a = None \<longrightarrow> ag_pk a' \<noteq> None \<and> ag_pk a' \<notin> set (map ag_pk (agrupaciones d)))"
proof (cases "ag_pk a")
  case None
  with assms have "a' = a\<lparr>ag_creado_en := Some now, ag_actualizado_en := Some now,
      ag_pk := Some (fresh_pk (map ag_pk (agrupaciones d)))\<rparr>"
    by (auto simp: Agrupacion_super_save_def Model_save_def Let_def split: if_splits)
  with None fresh_pk_fresh [of "map ag_pk (agrupaciones d)"] show ?thesis by simp
next
  case (Some k)
  with assms show ?thesis
    by (auto simp: Agrupacion_super_save_def Model_save_def Let_def split: if_splits)
qed

text \<open>
  C5, as amended. \<open>Agrupacion.save\<close> derives and assigns a slug only when the slug is
  empty at save time: with a non-empty slug the instance goes to the framework's save
  as it is, with an empty slug it goes there with a slug no stored group has. Saved
  with a non-empty slug, the instance keeps its slug whatever the outcome; a slug that another stored
  group has makes the save fail with \<open>IntegrityError\<close> and nothing is written; on
  success the row is stored with the slug, name, administrator, description and profile
  image as given, with \<open>actualizado_en\<close> set to the time of the save, with \<open>creado_en\<close>
  set to the time of the save on an insert and as given on an update, and with the key
  as given, or a key no stored row had when the instance had none. \<open>clean\<close> changes
  neither the instance nor the stored state, whatever the slug of the instance is, so
  no slug is derived during validation.
\<close>

theorem Agrupacion_save_keeps_given_slug:
  "(ag_slug a \<noteq> [] \<longrightarrow> Agrupacion_save now a d = Agrupacion_super_save now a d) \<and>
   (ag_slug a = [] \<longrightarrow>
      (\<exists>s. s \<notin> set (map ag_slug (agrupaciones d)) \<and>
           Agrupacion_save now a d = Agrupacion_super_save now (a\<lparr>ag_slug := s\<rparr>) d)) \<and>
   (ag_slug a \<noteq> [] \<and> Agrupacion_save now a d = (res, a', d') \<longrightarrow>
      ag_slug a' = ag_slug a \<and>
      (res = Inr () \<longrightarrow>
         a' \<in> set (agrupaciones d') \<and> ag_nombre a' = ag_nombre a \<and>
         ag_administrador a' = ag_administrador a \<and> ag_descripcion a' = ag_descripcion a \<and>
         ag_perfil_imagen a' = ag_perfil_imagen a \<and>
         ag_actualizado_en a' = Some now \<and>
         ag_creado_en a' = (if ag_pk a = None \<or> ag_pk a \<notin> set (map ag_pk (agrupaciones d))
                            then Some now else ag_creado_en a) \<and>
         (ag_pk a \<noteq> None \<longrightarrow> ag_pk a' = ag_pk a) \<and>
         (ag_pk a = None \<longrightarrow> ag_pk a' \<noteq> None \<and> ag_pk a' \<notin> set (map ag_pk (agrupaciones d)))) \<and>
      ((\<exists>r\<in>set (agrupaciones d). ag_pk r \<noteq> ag_pk a \<and> ag_slug r = ag_slug a) \<longrightarrow>
         res = Inl IntegrityError \<and> d' = d)) \<and>
   Agrupacion_clean c d \<in> {(Inr (), c, d), (Inl ValidationError, c, d)}"
proof (intro conjI impI)
  assume "ag_slug a \<noteq> []"
  then show "Agrupacion_save now a d = Agrupacion_super_save now a d"
    by (simp add: Agrupacion_save_def)
next
  assume e: "ag_slug a = []"
  let ?base = "take 180 (slugify (ag_nombre a))"
  obtain n where "probe_slug d ?base ?base 1 = candidate ?base n"
    "\<not> slug_exists d (candidate ?base n)"
    using probe_slug_first_free [of ?base ?base 0 1 d] by (auto simp: candidate_def)
  then have "probe_slug d ?base ?base 1 \<notin> set (map ag_slug (agrupaciones d))"
    by (simp add: slug_exists_def)
  moreover from e have "Agrupacion_save now a d =
      Agrupacion_super_save now (a\<lparr>ag_slug := probe_slug d ?base ?base 1\<rparr>) d"
    by (simp add: Agrupacion_save_def Let_def)
  ultimately show "\<exists>s. s \<notin> set (map ag_slug (agrupaciones d)) \<and>
           Agrupacion_save now a d = Agrupacion_super_save now (a\<lparr>ag_slug := s\<rparr>) d"
    by blast
next
  show "Agrupacion_clean c d \<in> {(Inr (), c, d), (Inl ValidationError, c, d)}"
    by (simp add: Agrupacion_clean_def)
next
  assume h: "ag_slug a \<noteq> [] \<and> Agrupacion_save now a d = (res, a', d')"
  then have ss: "Agrupacion_super_save now a d = (res, a', d')"
    by (auto simp: Agrupacion_save_def)
  note f = Agrupacion_super_save_fields [OF ss]
  from f show "ag_slug a' = ag_slug a" by simp
  show "\<exists>r\<in>set (agrupaciones d). ag_pk r \<noteq> ag_pk a \<and> ag_slug r = ag_slug a \<Longrightarrow> res = Inl IntegrityError"
    using ss by (blast dest: Agrupacion_super_save_collision)
  show "\<exists>r\<in>set (agrupaciones d). ag_pk r \<noteq> ag_pk a \<and> ag_slug r = ag_slug a \<Longrightarrow> d' = d"
    using ss by (blast dest: Agrupacion_super_save_collision)
  assume ok: "res = Inr ()"
  with ss have ss': "Agrupacion_super_save now a d = (Inr (), a', d')" by simp
  note au = Agrupacion_super_save_automatic [OF ss']
  from ss' show "a' \<in> set (agrupaciones d')" by (rule Agrupacion_super_save_stored)
  from f show "ag_nombre a' = ag_nombre a" by simp
  from f show "ag_administrador a' = ag_administrador a" by simp
  from f show "ag_descripcion a' = ag_descripcion a" by simp
  from f show "ag_perfil_imagen a' = ag_perfil_imagen a" by simp
  from au show "ag_actualizado_en a' = Some now" by simp
  from au show "ag_creado_en a' = (if ag_pk a = None \<or> ag_pk a \<notin> set (map ag_pk (agrupaciones d))
                            then Some now else ag_creado_en a)" by simp
  from au show "ag_pk a \<noteq> None \<Longrightarrow> ag_pk a' = ag_pk a" by simp
  from au show "ag_pk a = None \<Longrightarrow> ag_pk a' \<noteq> None" by simp
  from au show "ag_pk a = None \<Longrightarrow> ag_pk a' \<notin> set (map ag_pk (agrupaciones d))" by simp
qed

theorem Agrupacion_save_keeps_given_slug_witness:
  "ag_slug grupo \<noteq> [] \<and> ag_slug trovadores = [] \<and>
   Agrupacion_save 5 grupo db_trovadores
     = (Inr (), grupo\<lparr>ag_actualizado_en := Some 5\<rparr>,
        db_trovadores\<lparr>agrupaciones := [grupo\<lparr>ag_actualizado_en := Some 5\<rparr>]\<rparr>) \<and>
   Agrupacion_super_save 5 grupo db_trovadores
     = (Inr (), grupo\<lparr>ag_actualizado_en := Some 5\<rparr>,
        db_trovadores\<lparr>agrupaciones := [grupo\<lparr>ag_actualizado_en := Some 5\<rparr>]\<rparr>) \<and>
   ag_slug (grupo\<lparr>ag_actualizado_en := Some 5\<rparr>) = ag_slug grupo \<and>
   ag_creado_en (grupo\<lparr>ag_actualizado_en := Some 5\<rparr>) = ag_creado_en grupo \<and>
   fst (Agrupacion_save 6 (grupo\<lparr>ag_pk := None\<rparr>) db_trovadores) = Inl IntegrityError \<and>
   snd (snd (Agrupacion_save 6 (grupo\<lparr>ag_pk := None\<rparr>) db_trovadores)) = db_trovadores \<and>
   (\<exists>s. s \<notin> set (map ag_slug (agrupaciones db_trovadores)) \<and>
        Agrupacion_save 7 trovadores db_trovadores
          = Agrupacion_super_save 7 (trovadores\<lparr>ag_slug := s\<rparr>) db_trovadores) \<and>
   Agrupacion_clean trovadores db_trovadores = (Inr (), trovadores, db_trovadores)"
proof -
  have h: "ag_slug grupo \<noteq> []" "ag_slug (grupo\<lparr>ag_pk := None\<rparr>) \<noteq> []" "ag_slug trovadores = []"
    by (simp_all add: sample_defs)
  have sv: "Agrupacion_save 5 grupo db_trovadores
     = (Inr (), grupo\<lparr>ag_actualizado_en := Some 5\<rparr>,
        db_trovadores\<lparr>agrupaciones := [grupo\<lparr>ag_actualizado_en := Some 5\<rparr>]\<rparr>)"
    by (simp add: Agrupacion_save_def Agrupacion_super_save_def Model_save_def Let_def sample_defs)
  obtain res a' d' where sv2: "Agrupacion_save 6 (grupo\<lparr>ag_pk := None\<rparr>) db_trovadores = (res, a', d')"
    using prod_cases3 by blast
  have col: "\<exists>r\<in>set (agrupaciones db_trovadores).
      ag_pk r \<noteq> ag_pk (grupo\<lparr>ag_pk := None\<rparr>) \<and> ag_slug r = ag_slug (grupo\<lparr>ag_pk := None\<rparr>)"
    by (simp add: sample_defs)
  have cl: "Agrupacion_clean trovadores db_trovadores = (Inr (), trovadores, db_trovadores)"
    by (simp add: Agrupacion_clean_def truthy_def sample_defs)
  note t1 = Agrupacion_save_keeps_given_slug [of grupo 5 db_trovadores "Inr ()"
      "grupo\<lparr>ag_actualizado_en := Some 5\<rparr>"
      "db_trovadores\<lparr>agrupaciones := [grupo\<lparr>ag_actualizado_en := Some 5\<rparr>]\<rparr>" trovadores]
  note t2 = Agrupacion_save_keeps_given_slug [of "grupo\<lparr>ag_pk := None\<rparr>" 6 db_trovadores res a' d' trovadores]
  note t3 = Agrupacion_save_keeps_given_slug [of trovadores 7 db_trovadores res a' d' trovadores]
  from t1 h(1) sv have p1: "Agrupacion_super_save 5 grupo db_trovadores
     = (Inr (), grupo\<lparr>ag_actualizado_en := Some 5\<rparr>,
        db_trovadores\<lparr>agrupaciones := [grupo\<lparr>ag_actualizado_en := Some 5\<rparr>]\<rparr>)"
    by metis
  from t2 h(2) sv2 col have "res = Inl IntegrityError \<and> d' = db_trovadores"
    by blast
  with sv2 have p2: "fst (Agrupacion_save 6 (grupo\<lparr>ag_pk := None\<rparr>) db_trovadores) = Inl IntegrityError"
    "snd (snd (Agrupacion_save 6 (grupo\<lparr>ag_pk := None\<rparr>) db_trovadores)) = db_trovadores"
    by simp_all
  from t3 h(3) have p3: "\<exists>s. s \<notin> set (map ag_slug (agrupaciones db_trovadores)) \<and>
        Agrupacion_save 7 trovadores db_trovadores
          = Agrupacion_super_save 7 (trovadores\<lparr>ag_slug := s\<rparr>) db_trovadores"
    by blast
  from h(1,3) sv p1 p2 p3 cl show ?thesis by simp
qed

text \<open>
  The claim as stated fails on \<open>actualizado_en\<close> (\<open>auto_now=True\<close>): a stored group
  last updated at time 0 and saved again at time 5 is stored with the time 5, not with
  the value the instance carried.
\<close>

theorem Agrupacion_save_refreshes_actualizado_en:
  "ag_slug grupo \<noteq> [] \<and> ag_actualizado_en grupo = Some 0 \<and>
   fst (Agrupacion_save 5 grupo db_trovadores) = Inr () \<and>
   map ag_actualizado_en (agrupaciones (snd (snd (Agrupacion_save 5 grupo db_trovadores)))) = [Some 5]"
  by (simp add: Agrupacion_save_def Agrupacion_super_save_def Model_save_def Let_def sample_defs)

section \<open>Deleting lines and users\<close>

text \<open>
  C7. Deleting an artistic line that at least one genre references raises
  \<open>ProtectedError\<close> (the specification's ReferentialIntegrityViolation) and leaves the
  stored state, the line and its genres included, as it was; deleting a line that no
  genre references succeeds and removes the line.
\<close>

theorem LineaArtistica_delete_protected:
  "((\<exists>g\<in>set (generos d). genero_linea g = k) \<longrightarrow> LineaArtistica_delete k d = (Inl ProtectedError, d)) \<and>
   (\<not> (\<exists>g\<in>set (generos d). genero_linea g = k) \<longrightarrow>
      fst (LineaArtistica_delete k d) = Inr () \<and>
      Some k \<notin> set (map linea_pk (lineas (snd (LineaArtistica_delete k d)))) \<and>
      generos (snd (LineaArtistica_delete k d)) = generos d)"
  by (auto simp: LineaArtistica_delete_def filter_empty_conv)

theorem LineaArtistica_delete_protected_witness:
  "LineaArtistica_delete 1 db_completo = (Inl ProtectedError, db_completo) \<and>
   fst (LineaArtistica_delete 2 db_completo) = Inr () \<and>
   Some 2 \<notin> set (map linea_pk (lineas (snd (LineaArtistica_delete 2 db_completo)))) \<and>
   generos (snd (LineaArtistica_delete 2 db_completo)) = generos db_completo"
  using LineaArtistica_delete_protected [of db_completo 1]
    LineaArtistica_delete_protected [of db_completo 2]
  by (simp add: sample_defs)

lemma keys_of_iff: "k \<in> set (keys_of get_pk rows) \<longleftrightarrow> (\<exists>r\<in>set rows. get_pk r = Some k)"
  by (induction rows) (auto simp: keys_of_def split: option.splits)

lemma CustomUser_delete_tables:
  "users (snd (CustomUser_delete k d)) = filter (\<lambda>r. user_pk r \<noteq> Some k) (users d)"
  "artist_profiles (snd (CustomUser_delete k d)) =
     filter (\<lambda>r. ap_pk r \<notin> set (map Some (keys_of ap_pk (filter (\<lambda>r. ap_user r = k) (artist_profiles d)))))
       (artist_profiles d)"
  "agrupaciones (snd (CustomUser_delete k d)) =
     filter (\<lambda>r. ag_pk r \<notin> set (map Some (keys_of ag_pk (filter (\<lambda>r. ag_administrador r = k) (agrupaciones d)))))
       (agrupaciones d)"
  "artist_images (snd (CustomUser_delete k d)) =
     filter (\<lambda>r. ai_artist r \<notin> set (keys_of ap_pk (filter (\<lambda>r. ap_user r = k) (artist_profiles d))))
       (artist_images d)"
  "artist_socials (snd (CustomUser_delete k d)) =
     filter (\<lambda>r. as_artist r \<notin> set (keys_of ap_pk (filter (\<lambda>r. ap_user r = k) (artist_profiles d))))
       (artist_socials d)"
  by (simp_all add: CustomUser_delete_def Let_def ArtistProfile_cascade_def Agrupacion_cascade_def)

text \<open>
  C8. Deleting a user succeeds and removes the user, every \<open>ArtistProfile\<close> of that user
  with all the \<open>ArtistImage\<close> and \<open>ArtistSocial\<close> rows of the profile, and every
  \<open>Agrupacion\<close> the user administers: none of them is stored afterwards.
\<close>

theorem CustomUser_delete_cascades:
  assumes "has_keys ap_pk (artist_profiles d)" and "has_keys ag_pk (agrupaciones d)"
  shows "fst (CustomUser_delete k d) = Inr () \<and>
         Some k \<notin> set (map user_pk (users (snd (CustomUser_delete k d)))) \<and>
         k \<notin> set (map ap_user (artist_profiles (snd (CustomUser_delete k d)))) \<and>
         k \<notin> set (map ag_administrador (agrupaciones (snd (CustomUser_delete k d)))) \<and>
         (\<forall>p\<in>set (artist_profiles d). ap_user p = k \<longrightarrow>
            p \<notin> set (artist_profiles (snd (CustomUser_delete k d))) \<and>
            (\<forall>i\<in>set (artist_images (snd (CustomUser_delete k d))). Some (ai_artist i) \<noteq> ap_pk p) \<and>
            (\<forall>s\<in>set (artist_socials (snd (CustomUser_delete k d))). Some (as_artist s) \<noteq> ap_pk p))"
proof -
  let ?ps = "keys_of ap_pk (filter (\<lambda>r. ap_user r = k) (artist_profiles d))"
  let ?gs = "keys_of ag_pk (filter (\<lambda>r. ag_administrador r = k) (agrupaciones d))"
  have kp: "ap_pk r \<in> set (map Some ?ps)" if "r \<in> set (artist_profiles d)" "ap_user r = k" for r
  proof -
    from assms(1) that(1) obtain j where "ap_pk r = Some j"
      by (cases "ap_pk r") (auto simp: has_keys_def image_iff)
    moreover from this that have "j \<in> set ?ps" by (auto simp: keys_of_iff)
    ultimately show ?thesis by simp
  qed
  have kg: "ag_pk r \<in> set (map Some ?gs)" if "r \<in> set (agrupaciones d)" "ag_administrador r = k" for r
  proof -
    from assms(2) that(1) obtain j where "ag_pk r = Some j"
      by (cases "ag_pk r") (auto simp: has_keys_def image_iff)
    moreover from this that have "j \<in> set ?gs" by (auto simp: keys_of_iff)
    ultimately show ?thesis by simp
  qed
  have ok: "fst (CustomUser_delete k d) = Inr ()"
    by (simp add: CustomUser_delete_def Let_def)
  have us: "Some k \<notin> set (map user_pk (users (snd (CustomUser_delete k d))))"
    by (auto simp: CustomUser_delete_tables)
  have ps: "k \<notin> set (map ap_user (artist_profiles (snd (CustomUser_delete k d))))"
    using kp by (auto simp: CustomUser_delete_tables(2))
  have gs: "k \<notin> set (map ag_administrador (agrupaciones (snd (CustomUser_delete k d))))"
    using kg by (auto simp: CustomUser_delete_tables(3))
  have each: "p \<notin> set (artist_profiles (snd (CustomUser_delete k d))) \<and>
            (\<forall>i\<in>set (artist_images (snd (CustomUser_delete k d))). Some (ai_artist i) \<noteq> ap_pk p) \<and>
            (\<forall>s\<in>set (artist_socials (snd (CustomUser_delete k d))). Some (as_artist s) \<noteq> ap_pk p)"
    if p: "p \<in> set (artist_profiles d)" "ap_user p = k" for p
  proof (intro conjI ballI)
    from ps p(2) show "p \<notin> set (artist_profiles (snd (CustomUser_delete k d)))" by force
  next
    fix i assume "i \<in> set (artist_images (snd (CustomUser_delete k d)))"
    then have "ai_artist i \<notin> set ?ps" by (simp add: CustomUser_delete_tables(4))
    with p show "Some (ai_artist i) \<noteq> ap_pk p" by (auto simp: keys_of_iff)
  next
    fix s assume "s \<in> set (artist_socials (snd (CustomUser_delete k d)))"
    then have "as_artist s \<notin> set ?ps" by (simp add: CustomUser_delete_tables(5))
    with p show "Some (as_artist s) \<noteq> ap_pk p" by (auto simp: keys_of_iff)
  qed
  from ok us ps gs each show ?thesis by blast
qed

theorem CustomUser_delete_cascades_witness:
  "has_keys ap_pk (artist_profiles db_completo) \<and> has_keys ag_pk (agrupaciones db_completo) \<and>
   artista \<in> set (artist_profiles db_completo) \<and> ap_user artista = 1 \<and>
   fst (CustomUser_delete 1 db_completo) = Inr () \<and>
   users (snd (CustomUser_delete 1 db_completo)) = [] \<and>
   artist_profiles (snd (CustomUser_delete 1 db_completo)) = [] \<and>
   agrupaciones (snd (CustomUser_delete 1 db_completo)) = [] \<and>
   artist_images (snd (CustomUser_delete 1 db_completo)) = [] \<and>
   artist_socials (snd (CustomUser_delete 1 db_completo)) = [] \<and>
   Some 1 \<notin> set (map user_pk (users (snd (CustomUser_delete 1 db_completo)))) \<and>
   artista \<notin> set (artist_profiles (snd (CustomUser_delete 1 db_completo)))"
proof -
  have h1: "has_keys ap_pk (artist_profiles db_completo)"
    and h2: "has_keys ag_pk (agrupaciones db_completo)"
    by (simp_all add: has_keys_def sample_defs)
  have m: "artista \<in> set (artist_profiles db_completo)" "ap_user artista = 1"
    by (simp_all add: sample_defs)
  have ev: "users (snd (CustomUser_delete 1 db_completo)) = []"
    "artist_profiles (snd (CustomUser_delete 1 db_completo)) = []"
    "agrupaciones (snd (CustomUser_delete 1 db_completo)) = []"
    "artist_images (snd (CustomUser_delete 1 db_completo)) = []"
    "artist_socials (snd (CustomUser_delete 1 db_completo)) = []"
    by (simp_all add: CustomUser_delete_tables keys_of_def sample_defs)
  from CustomUser_delete_cascades [OF h1 h2, of 1] h1 h2 m ev show ?thesis by simp
qed

section \<open>Unique email\<close>

text \<open>
  C9. Creating a user whose email equals the email of a stored user raises
  \<open>IntegrityError\<close> (the specification's UniquenessViolation) and stores nothing,
  whatever the two usernames are.
\<close>

theorem CustomUser_save_duplicate_email:
  assumes "u' \<in> set (users d)" and "user_email u' = user_email u"
    and "user_pk u = None \<or> user_pk u' \<noteq> user_pk u"
  shows "CustomUser_save u d = (Inl IntegrityError, u, d)"
proof -
  let ?others = "if user_pk u = None \<or> user_pk u \<notin> set (map user_pk (users d)) then users d
                 else filter (\<lambda>r. user_pk r \<noteq> user_pk u) (users d)"
  from assms(1,3) have "u' \<in> set ?others" by auto
  with assms(2) have "user_email u \<in> set (map user_email ?others)" by (metis image_eqI set_map)
  then show ?thesis
    by (auto simp: CustomUser_save_def Model_save_def Let_def split: if_splits)
qed


theorem CustomUser_save_duplicate_email_witness:
  "ana \<in> set (users db_ana) \<and>
   user_email ana = user_email (ana\<lparr>user_pk := None, user_username := ''beto''\<rparr>) \<and>
   CustomUser_save (ana\<lparr>user_pk := None, user_username := ''beto''\<rparr>) db_ana
     = (Inl IntegrityError, ana\<lparr>user_pk := None, user_username := ''beto''\<rparr>, db_ana) \<and>
   fst (CustomUser_save (ana\<lparr>user_pk := None, user_username := ''beto'', user_email := ''beto@example.org''\<rparr>) db_ana)
     = Inr ()"
proof -
  have h: "ana \<in> set (users db_ana)"
    "user_email ana = user_email (ana\<lparr>user_pk := None, user_username := ''beto''\<rparr>)"
    "user_pk (ana\<lparr>user_pk := None, user_username := ''beto''\<rparr>) = None \<or>
     user_pk ana \<noteq> user_pk (ana\<lparr>user_pk := None, user_username := ''beto''\<rparr>)"
    by (simp_all add: sample_defs)
  have ok: "fst (CustomUser_save (ana\<lparr>user_pk := None, user_username := ''beto'', user_email := ''beto@example.org''\<rparr>) db_ana)
     = Inr ()"
    by (simp add: CustomUser_save_def Model_save_def Let_def sample_defs)
  from CustomUser_save_duplicate_email [OF h] h(1,2) ok show ?thesis by simp
qed

end
